theory Spec2Isabelle
  imports Main "HOL-Library.AList"
begin

section \<open>Type descriptors\<close>

text \<open>
  A \<^verbatim>\<open>reflect.Type\<close> is modelled by the three things the schema builder reads from
  it: \<^verbatim>\<open>Name()\<close>, \<^verbatim>\<open>String()\<close> and \<^verbatim>\<open>Kind()\<close>. The kind carries what the
  accessors valid for it return: \<^verbatim>\<open>Elem()\<close> for arrays, pointers and slices, the
  fields in declaration order for structs. Of a struct field the builder reads
  \<^verbatim>\<open>f.Type\<close> and \<^verbatim>\<open>f.Tag.Get("json")\<close>; the latter is stored as \<open>Tag_json\<close>.
  Descriptors are finite trees: a self-referential Go type has no descriptor here.
\<close>

datatype rtype = RType (Name: string) (String: string) (Kind: kind)
and kind =
    Invalid | Bool
  | Int_kind | Int8 | Int16 | Int32 | Int64
  | Uint | Uint8 | Uint16 | Uint32 | Uint64 | Uintptr
  | Float32 | Float64 | Complex64 | Complex128
  | Array rtype | Chan | Func | Interface | Map
  | Pointer rtype | Slice rtype | String_kind
  | Struct "structField list" | UnsafePointer
and structField = StructField (fName: string) (Tag_json: string) (fType: rtype)

text \<open>\<^verbatim>\<open>Kind.String()\<close>, as printed by the diagnostic of \<open>getProperty\<close>.\<close>

fun Kind_String :: "kind \<Rightarrow> string" where
  "Kind_String Invalid = ''invalid''"
| "Kind_String Bool = ''bool''"
| "Kind_String Int_kind = ''int''"
| "Kind_String Int8 = ''int8''"
| "Kind_String Int16 = ''int16''"
| "Kind_String Int32 = ''int32''"
| "Kind_String Int64 = ''int64''"
| "Kind_String Uint = ''uint''"
| "Kind_String Uint8 = ''uint8''"
| "Kind_String Uint16 = ''uint16''"
| "Kind_String Uint32 = ''uint32''"
| "Kind_String Uint64 = ''uint64''"
| "Kind_String Uintptr = ''uintptr''"
| "Kind_String Float32 = ''float32''"
| "Kind_String Float64 = ''float64''"
| "Kind_String Complex64 = ''complex64''"
| "Kind_String Complex128 = ''complex128''"
| "Kind_String (Array e) = ''array''"
| "Kind_String Chan = ''chan''"
| "Kind_String Func = ''func''"
| "Kind_String Interface = ''interface''"
| "Kind_String Map = ''map''"
| "Kind_String (Pointer e) = ''ptr''"
| "Kind_String (Slice e) = ''slice''"
| "Kind_String String_kind = ''string''"
| "Kind_String (Struct fs) = ''struct''"
| "Kind_String UnsafePointer = ''unsafe.Pointer''"

section \<open>Schema nodes\<close>

text \<open>
  The fields of \<^verbatim>\<open>spec.Schema\<close> (go-openapi/spec v0.21.0, the version pinned in
  go.mod) that this repository sets. A Go map is an association list with distinct
  keys, read with \<open>map_of\<close> and written with \<open>AList.update\<close>.
\<close>

datatype schema = Schema
  (Type: "string list") (Format: string) (Items: "schema option")
  (Properties: "(string \<times> schema) list") (Nullable: bool) (Ref: string)

definition set_Nullable :: "bool \<Rightarrow> schema \<Rightarrow> schema" where
  "set_Nullable b p = Schema (Type p) (Format p) (Items p) (Properties p) b (Ref p)"

text \<open>
  Modelled from the spec: the schema constructors are functions of the dependency
  go-openapi/spec, which is not under src/. The spec gives the shapes (boolean, integer
  with its width, number, string with a format, array of items, reference); the format
  names and the treatment of a nil item schema by \<open>ArrayProperty\<close>, which leaves
  \<open>Items\<close> unset, are those of the library version that go.mod pins.
\<close>

definition StrFmtProperty :: "string \<Rightarrow> schema" where
  "StrFmtProperty fmt = Schema [''string''] fmt None [] False []"

definition DateProperty :: schema where
  "DateProperty = Schema [''string''] ''date'' None [] False []"

definition BooleanProperty :: schema where
  "BooleanProperty = Schema [''boolean''] [] None [] False []"

definition Int8Property :: schema where
  "Int8Property = Schema [''integer''] ''int8'' None [] False []"

definition Int16Property :: schema where
  "Int16Property = Schema [''integer''] ''int16'' None [] False []"

definition Int32Property :: schema where
  "Int32Property = Schema [''integer''] ''int32'' None [] False []"

definition Int64Property :: schema where
  "Int64Property = Schema [''integer''] ''int64'' None [] False []"

definition Float32Property :: schema where
  "Float32Property = Schema [''number''] ''float'' None [] False []"

definition Float64Property :: schema where
  "Float64Property = Schema [''number''] ''double'' None [] False []"

definition StringProperty :: schema where
  "StringProperty = Schema [''string''] [] None [] False []"

definition ArrayProperty :: "schema option \<Rightarrow> schema" where
  "ArrayProperty items = Schema [''array''] [] items [] False []"

definition RefProperty :: "string \<Rightarrow> schema" where
  "RefProperty name = Schema [] [] None [] False name"

section \<open>The schema builder\<close>

text \<open>
  A run-time panic is a value. Every function that can panic, or that logs, returns the
  lines it passed to \<^verbatim>\<open>log.Printf\<close> together with its outcome.
\<close>

datatype panic = NilPointerDereference | InvalidWriteHeaderCode int

type_synonym 'a logged = "string list \<times> (panic + 'a)"

text \<open>\<^verbatim>\<open>strings.ReplaceAll(s, "/", ".")\<close> and \<^verbatim>\<open>strings.Split(s, ",")[0]\<close>.\<close>

definition ReplaceAll_slash_dot :: "string \<Rightarrow> string" where
  "ReplaceAll_slash_dot s = map (\<lambda>c. if c = CHR ''/'' then CHR ''.'' else c) s"

definition Split_comma_0 :: "string \<Rightarrow> string" where
  "Split_comma_0 s = takeWhile (\<lambda>c. c \<noteq> CHR '','') s"

fun getName :: "rtype \<Rightarrow> string" where
  "getName (RType n s k) =
     (case k of
        Pointer e \<Rightarrow> ''*'' @ getName e
      | _ \<Rightarrow> ReplaceAll_slash_dot n)"

text \<open>
  \<open>getProperty\<close>, with the loop over the struct fields as \<open>getProperty_fields\<close>: the
  second argument is \<^verbatim>\<open>schema.SchemaProps.Properties\<close> so far. The pointer case
  writes through the pointer the recursive call returned, which is nil when the pointee
  has no schema. A logged line is the formatted message, without its final newline.
\<close>

fun getProperty :: "rtype \<Rightarrow> schema option logged"
  and getProperty_fields ::
    "structField list \<Rightarrow> (string \<times> schema) list \<Rightarrow> (string \<times> schema) list logged"
where
  "getProperty (RType n s k) =
     (if s = ''uuid.UUID'' then ([], Inr (Some (StrFmtProperty ''uuid'')))
      else if s = ''date.DateString'' then ([], Inr (Some DateProperty))
      else (case k of
          Bool \<Rightarrow> ([], Inr (Some BooleanProperty))
        | Int_kind \<Rightarrow> ([], Inr (Some Int64Property))
        | Int8 \<Rightarrow> ([], Inr (Some Int8Property))
        | Int16 \<Rightarrow> ([], Inr (Some Int16Property))
        | Int32 \<Rightarrow> ([], Inr (Some Int32Property))
        | Int64 \<Rightarrow> ([], Inr (Some Int64Property))
        | Uint \<Rightarrow> ([], Inr (Some Int64Property))
        | Uint8 \<Rightarrow> ([], Inr (Some Int8Property))
        | Uint16 \<Rightarrow> ([], Inr (Some Int16Property))
        | Uint32 \<Rightarrow> ([], Inr (Some Int32Property))
        | Uint64 \<Rightarrow> ([], Inr (Some Int64Property))
        | Float32 \<Rightarrow> ([], Inr (Some Float32Property))
        | Float64 \<Rightarrow> ([], Inr (Some Float64Property))
        | Array e \<Rightarrow>
            (case getProperty e of
               (lg, Inl p) \<Rightarrow> (lg, Inl p)
             | (lg, Inr items) \<Rightarrow> (lg, Inr (Some (ArrayProperty items))))
        | Pointer e \<Rightarrow>
            (case getProperty e of
               (lg, Inl p) \<Rightarrow> (lg, Inl p)
             | (lg, Inr None) \<Rightarrow> (lg, Inl NilPointerDereference)
             | (lg, Inr (Some property)) \<Rightarrow> (lg, Inr (Some (set_Nullable True property))))
        | Slice e \<Rightarrow>
            (case getProperty e of
               (lg, Inl p) \<Rightarrow> (lg, Inl p)
             | (lg, Inr items) \<Rightarrow> (lg, Inr (Some (ArrayProperty items))))
        | String_kind \<Rightarrow> ([], Inr (Some StringProperty))
        | Struct fs \<Rightarrow>
            (case getProperty_fields fs [] of
               (lg, Inl p) \<Rightarrow> (lg, Inl p)
             | (lg, Inr props) \<Rightarrow> (lg, Inr (Some (Schema [] [] None props False []))))
        | _ \<Rightarrow>
            ([''Unknown kind for swagger property: '' @ getName (RType n s k) @ '' ''
                @ Kind_String k], Inr None)))"
| "getProperty_fields [] props = ([], Inr props)"
| "getProperty_fields (StructField nm tag ty # fs) props =
     (case getProperty ty of
        (lg, Inl p) \<Rightarrow> (lg, Inl p)
      | (lg, Inr property) \<Rightarrow>
          (case getProperty_fields fs
                  (case property of
                     None \<Rightarrow> props
                   | Some p \<Rightarrow> AList.update (Split_comma_0 tag) p props) of
             (lg', r) \<Rightarrow> (lg @ lg', r)))"

section \<open>The document\<close>

text \<open>
  The fields of \<^verbatim>\<open>spec.Parameter\<close>, \<^verbatim>\<open>spec.Response\<close>, \<^verbatim>\<open>spec.Operation\<close>,
  \<^verbatim>\<open>spec.PathItem\<close> and \<^verbatim>\<open>spec.Swagger\<close> that the assembler writes. \<open>pType\<close> is
  the parameter's \<^verbatim>\<open>SimpleSchema.Type\<close>, \<open>Responses\<close> the operation's
  \<^verbatim>\<open>StatusCodeResponses\<close>.
\<close>

record parameter =
  pName :: string
  In :: string
  Required :: bool
  pSchema :: "schema option"
  pType :: string

record response =
  rSchema :: "schema option"

record operation =
  Parameters :: "parameter list"
  Responses :: "(int \<times> response) list"

record pathItem =
  Get :: "operation option"
  Put :: "operation option"
  Post :: "operation option"
  Delete :: "operation option"
  Options :: "operation option"
  Head :: "operation option"
  Patch :: "operation option"

record swagger =
  Swagger :: string
  Definitions :: "(string \<times> schema) list"
  Paths :: "(string \<times> pathItem) list"

text \<open>
  Modelled from the spec: the operation and parameter helpers are functions of the
  dependency go-openapi/spec, which is not under src/. The spec gives the JSON shapes: a
  path parameter is \<open>{name, in: path}\<close> and required, a body parameter
  \<open>{in: body, schema}\<close>. Where the spec is silent the library version that go.mod pins
  decides: neither constructor sets a type (that is what the library's \<^verbatim>\<open>Typed\<close> is
  for), and \<open>AddParam\<close>, as its documentation says, replaces in place a parameter that
  has the same name and location and appends otherwise. \<open>RespondsWith\<close> stores the
  response under its status code.
\<close>

definition NewOperation :: operation where
  "NewOperation = \<lparr>Parameters = [], Responses = []\<rparr>"

definition PathParam :: "string \<Rightarrow> parameter" where
  "PathParam name =
     \<lparr>pName = name, In = ''path'', Required = True, pSchema = None, pType = []\<rparr>"

definition BodyParam :: "string \<Rightarrow> schema \<Rightarrow> parameter" where
  "BodyParam name sch =
     \<lparr>pName = name, In = ''body'', Required = False, pSchema = Some sch, pType = []\<rparr>"

fun replace_param :: "parameter \<Rightarrow> parameter list \<Rightarrow> parameter list" where
  "replace_param param [] = [param]"
| "replace_param param (p # ps) =
     (if pName p = pName param \<and> In p = In param then param # ps
      else p # replace_param param ps)"

definition AddParam :: "parameter \<Rightarrow> operation \<Rightarrow> operation" where
  "AddParam param o' = o'\<lparr>Parameters := replace_param param (Parameters o')\<rparr>"

definition NewResponse :: response where
  "NewResponse = \<lparr>rSchema = None\<rparr>"

definition RespondsWith :: "int \<Rightarrow> response \<Rightarrow> operation \<Rightarrow> operation" where
  "RespondsWith code resp o' = o'\<lparr>Responses := AList.update code resp (Responses o')\<rparr>"

definition StatusOK :: int where
  "StatusOK = 200"

definition empty_PathItem :: pathItem where
  "empty_PathItem =
     \<lparr>Get = None, Put = None, Post = None, Delete = None, Options = None, Head = None,
      Patch = None\<rparr>"

subsection \<open>Handlers and their capabilities\<close>

text \<open>
  The handler of a route is one of the two adapter structs of handlers.go, instantiated
  at its type arguments, or any other \<^verbatim>\<open>http.Handler\<close>, given by what its
  \<^verbatim>\<open>PayloadType\<close> and \<^verbatim>\<open>ResponseType\<close> methods return where it has them. A
  \<^verbatim>\<open>reflect.Type\<close> value may be nil: \<open>None\<close>.

  handlers.go declares \<^verbatim>\<open>ServeHTTP\<close> and \<^verbatim>\<open>ResponseType\<close> on
  \<^verbatim>\<open>JSONHandler[O]\<close>, \<^verbatim>\<open>ServeHTTP\<close> on \<^verbatim>\<open>JSONPayloadHandler[I, O]\<close>, and
  \<^verbatim>\<open>PayloadType\<close> and \<^verbatim>\<open>ResponseType\<close> on the function type
  \<^verbatim>\<open>JSONPayloadHandlerFunc[I, O]\<close>. The struct holds the function in a named
  field, so the function type's methods are not in the struct's method set.
\<close>

datatype ghttp_type = JSONHandler_type | JSONPayloadHandler_type | JSONPayloadHandlerFunc_type

datatype method_name = ServeHTTP_method | PayloadType_method | ResponseType_method

fun method_set :: "ghttp_type \<Rightarrow> method_name list" where
  "method_set JSONHandler_type = [ServeHTTP_method, ResponseType_method]"
| "method_set JSONPayloadHandler_type = [ServeHTTP_method]"
| "method_set JSONPayloadHandlerFunc_type = [PayloadType_method, ResponseType_method]"

datatype handler =
    JSONHandler rtype
  | JSONPayloadHandler rtype rtype
  | OtherHandler "rtype option option" "rtype option option"

text \<open>
  \<^verbatim>\<open>reflect.TypeOf(v)\<close> for \<^verbatim>\<open>var v T\<close>: the zero value of an interface type is the
  nil interface, whose type descriptor is nil.
\<close>

definition TypeOf_zero :: "rtype \<Rightarrow> rtype option" where
  "TypeOf_zero t = (if Kind t = Interface then None else Some t)"

text \<open>
  \<^verbatim>\<open>NewJSONHandler[O](fn)\<close> and \<^verbatim>\<open>NewJSONPayloadHandler[I, O](fn)\<close>, as handlers:
  the callback plays no part in the document.
\<close>

definition NewJSONHandler :: "rtype \<Rightarrow> handler" where
  "NewJSONHandler O' = JSONHandler O'"

definition NewJSONPayloadHandler :: "rtype \<Rightarrow> rtype \<Rightarrow> handler" where
  "NewJSONPayloadHandler I' O' = JSONPayloadHandler I' O'"

text \<open>
  The type assertions \<^verbatim>\<open>handler.(ghttp.PayloadTyper)\<close> and
  \<^verbatim>\<open>handler.(ghttp.ResponseTyper)\<close>, followed by the method call when the assertion
  holds. \<open>None\<close>: the handler does not have the method. (No \<^verbatim>\<open>PayloadType\<close> is
  declared for an output-only handler at all.)
\<close>

fun as_PayloadTyper :: "handler \<Rightarrow> rtype option option" where
  "as_PayloadTyper (JSONHandler O') = None"
| "as_PayloadTyper (JSONPayloadHandler I' O') =
     (if PayloadType_method \<in> set (method_set JSONPayloadHandler_type)
      then Some (TypeOf_zero I') else None)"
| "as_PayloadTyper (OtherHandler p r) = p"

fun as_ResponseTyper :: "handler \<Rightarrow> rtype option option" where
  "as_ResponseTyper (JSONHandler O') =
     (if ResponseType_method \<in> set (method_set JSONHandler_type)
      then Some (TypeOf_zero O') else None)"
| "as_ResponseTyper (JSONPayloadHandler I' O') =
     (if ResponseType_method \<in> set (method_set JSONPayloadHandler_type)
      then Some (TypeOf_zero O') else None)"
| "as_ResponseTyper (OtherHandler p r) = r"

subsection \<open>Path parameters\<close>

text \<open>
  \<^verbatim>\<open>pathParamPattern.FindAllStringSubmatch(route, -1)\<close> for the pattern
  \<^verbatim>\<open>{([^}]+)}\<close>, as the list of the first submatches: the leftmost match starts at the
  first \<open>{\<close> that is followed by at least one character other than \<open>}\<close> and then by
  \<open>}\<close>; the search goes on behind the match.
\<close>

function pathParamPattern_FindAll :: "string \<Rightarrow> string list" where
  "pathParamPattern_FindAll [] = []"
| "pathParamPattern_FindAll (c # cs) =
     (if c = CHR ''{''
         \<and> takeWhile (\<lambda>x. x \<noteq> CHR ''}'') cs \<noteq> [] \<and> dropWhile (\<lambda>x. x \<noteq> CHR ''}'') cs \<noteq> []
      then takeWhile (\<lambda>x. x \<noteq> CHR ''}'') cs
             # pathParamPattern_FindAll (tl (dropWhile (\<lambda>x. x \<noteq> CHR ''}'') cs))
      else pathParamPattern_FindAll cs)"
  by pat_completeness auto
termination
proof (relation "measure length")
  show "wf (measure length)" by simp
next
  fix c :: char and cs :: string
  have "length (tl (dropWhile (\<lambda>x. x \<noteq> CHR ''}'') cs)) \<le> length cs"
    using length_dropWhile_le [of "\<lambda>x. x \<noteq> CHR ''}''" cs] by simp
  then show "(tl (dropWhile (\<lambda>x. x \<noteq> CHR ''}'') cs), c # cs) \<in> measure length"
    by simp
next
  fix c :: char and cs :: string
  show "(cs, c # cs) \<in> measure length" by simp
qed

subsection \<open>The route walker\<close>

definition bind_logged :: "'a logged \<Rightarrow> ('a \<Rightarrow> 'b logged) \<Rightarrow> 'b logged" where
  "bind_logged m f =
     (case m of
        (lg, Inl p) \<Rightarrow> (lg, Inl p)
      | (lg, Inr x) \<Rightarrow> (case f x of (lg', r) \<Rightarrow> (lg @ lg', r)))"

definition has_key :: "('k \<times> 'v) list \<Rightarrow> 'k \<Rightarrow> bool" where
  "has_key m k = (map_of m k \<noteq> None)"

text \<open>
  \<open>addDefinition\<close>. The map \<^verbatim>\<open>doc.Definitions\<close> is shared with the caller's document,
  so the updated document is returned.
\<close>

definition addDefinition :: "swagger \<Rightarrow> rtype \<Rightarrow> swagger logged" where
  "addDefinition doc t =
     (if has_key (Definitions doc) (getName t) then ([], Inr doc)
      else (case getProperty t of
              (lg, Inl p) \<Rightarrow> (lg, Inl p)
            | (lg, Inr None) \<Rightarrow> (lg, Inr doc)
            | (lg, Inr (Some prop)) \<Rightarrow>
                (lg, Inr (doc\<lparr>Definitions := AList.update (getName t) prop (Definitions doc)\<rparr>))))"

text \<open>The method switch at the end of the walk callback.\<close>

definition attach :: "string \<Rightarrow> operation \<Rightarrow> pathItem \<Rightarrow> pathItem" where
  "attach method operation pathItem =
     (if method = ''GET'' then pathItem\<lparr>Get := Some operation\<rparr>
      else if method = ''PUT'' then pathItem\<lparr>Put := Some operation\<rparr>
      else if method = ''POST'' then pathItem\<lparr>Post := Some operation\<rparr>
      else if method = ''DELETE'' then pathItem\<lparr>Delete := Some operation\<rparr>
      else if method = ''OPTIONS'' then pathItem\<lparr>Options := Some operation\<rparr>
      else if method = ''HEAD'' then pathItem\<lparr>Head := Some operation\<rparr>
      else if method = ''PATCH'' then pathItem\<lparr>Patch := Some operation\<rparr>
      else pathItem)"

text \<open>
  The three parts of the callback that build the operation. A nil type descriptor
  panics in \<open>addDefinition\<close>, at the call \<^verbatim>\<open>t.Kind()\<close> of \<open>getName\<close>.
\<close>

definition add_body_param :: "handler \<Rightarrow> swagger \<times> operation \<Rightarrow> (swagger \<times> operation) logged" where
  "add_body_param handler = (\<lambda>(doc, operation).
     (case as_PayloadTyper handler of
        None \<Rightarrow> ([], Inr (doc, operation))
      | Some None \<Rightarrow> ([], Inl NilPointerDereference)
      | Some (Some pt) \<Rightarrow>
          bind_logged (addDefinition doc pt) (\<lambda>doc'.
            ([], Inr (doc',
               AddParam (BodyParam (getName pt) (RefProperty (''#/definitions/'' @ getName pt)))
                 operation)))))"

definition add_response :: "handler \<Rightarrow> swagger \<times> operation \<Rightarrow> (swagger \<times> operation) logged" where
  "add_response handler = (\<lambda>(doc, operation).
     (case as_ResponseTyper handler of
        None \<Rightarrow> ([], Inr (doc, operation))
      | Some None \<Rightarrow> ([], Inl NilPointerDereference)
      | Some (Some rt) \<Rightarrow>
          bind_logged (addDefinition doc rt) (\<lambda>doc'.
            ([], Inr (doc',
               RespondsWith StatusOK
                 (NewResponse\<lparr>rSchema := Some (RefProperty (''#/definitions/'' @ getName rt))\<rparr>)
                 operation)))))"

definition add_path_params :: "string \<Rightarrow> operation \<Rightarrow> operation" where
  "add_path_params route operation =
     foldl (\<lambda>op pathParam. AddParam (PathParam pathParam) op) operation
       (pathParamPattern_FindAll route)"

text \<open>
  The callback that \<open>initializeDoc\<close> passes to \<^verbatim>\<open>chi.Walk\<close>. It always returns a nil
  error, so its outcome is the document it leaves behind, or a panic.
\<close>

definition walkFn :: "string \<Rightarrow> string \<Rightarrow> handler \<Rightarrow> swagger \<Rightarrow> swagger logged" where
  "walkFn method route handler doc =
     (let doc1 = (if has_key (Paths doc) route then doc
                  else doc\<lparr>Paths := AList.update route empty_PathItem (Paths doc)\<rparr>)
      in bind_logged (add_body_param handler (doc1, NewOperation)) (\<lambda>s2.
         bind_logged (add_response handler s2) (\<lambda>(doc3, operation3).
           (let operation = add_path_params route operation3;
                pathItem = (case map_of (Paths doc3) route of
                              None \<Rightarrow> empty_PathItem
                            | Some item \<Rightarrow> item)
            in ([], Inr (doc3\<lparr>Paths :=
                   AList.update route (attach method operation pathItem) (Paths doc3)\<rparr>))))))"

text \<open>
  \<^verbatim>\<open>chi.Walk\<close> calls the callback once for every method of every registered route;
  the router is given by the list of these visits, in the order of the walk.
\<close>

type_synonym route_entry = "string \<times> string \<times> handler"

fun Walk :: "route_entry list \<Rightarrow> swagger \<Rightarrow> swagger logged" where
  "Walk [] doc = ([], Inr doc)"
| "Walk ((method, route, handler) # rs) doc =
     bind_logged (walkFn method route handler doc) (Walk rs)"

definition initializeDoc :: "route_entry list \<Rightarrow> swagger logged" where
  "initializeDoc r = Walk r \<lparr>Swagger = ''2.0'', Definitions = [], Paths = []\<rparr>"

section \<open>The JSON handlers\<close>

text \<open>
  An \<^verbatim>\<open>interface{}\<close> response value is a string or a value of the type \<open>'a\<close>, which
  stands for everything else, the callback's output type among it.
\<close>

datatype 'a any = String_value string | Value 'a

text \<open>
  The package variable \<open>defaultInvalidJSONPayloadHandler\<close> is program state: its
  initial value, and the setter as a state update.
\<close>

definition StatusBadGateway :: int where
  "StatusBadGateway = 502"

record ('e, 'a) globals =
  defaultInvalidJSONPayloadHandler :: "'e \<Rightarrow> 'a any \<times> int"

definition init_globals :: "('e, 'a) globals" where
  "init_globals =
     \<lparr>defaultInvalidJSONPayloadHandler = (\<lambda>err. (String_value ''Invalid payload'', StatusBadGateway))\<rparr>"

definition SetDefaultInvalidJSONPayloadHandler ::
  "('e \<Rightarrow> 'a any \<times> int) \<Rightarrow> ('e, 'a) globals \<Rightarrow> ('e, 'a) globals" where
  "SetDefaultInvalidJSONPayloadHandler fn g = g\<lparr>defaultInvalidJSONPayloadHandler := fn\<rparr>"

text \<open>
  The \<^verbatim>\<open>http.ResponseWriter\<close> is an interface: a writer is a state \<open>'w\<close> together
  with what its implementation does on \<^verbatim>\<open>Header().Set\<close>, \<^verbatim>\<open>WriteHeader\<close> and
  \<^verbatim>\<open>Write\<close>. \<^verbatim>\<open>WriteHeader\<close> can panic; \<^verbatim>\<open>Write\<close> returns its error, if any.
\<close>

record ('w, 'e) ResponseWriter =
  Header_Set :: "string \<Rightarrow> string \<Rightarrow> 'w \<Rightarrow> 'w"
  WriteHeader :: "int \<Rightarrow> 'w \<Rightarrow> panic + 'w"
  Write :: "string \<Rightarrow> 'w \<Rightarrow> 'e option \<times> 'w"

text \<open>
  Of the request the handler reads the body. The JSON codec is a parameter: \<open>Decode\<close>
  is \<^verbatim>\<open>json.Decoder.Decode\<close> on the request body, \<open>Marshal\<close> the bytes that
  \<^verbatim>\<open>json.Encoder.Encode\<close> produces for a response value, or its error.
\<close>

record request =
  Body :: string

record ('e, 'i, 'a) codec =
  Decode :: "string \<Rightarrow> 'e + 'i"
  Marshal :: "'a any \<Rightarrow> 'e + string"

text \<open>
  What serving a request leaves behind: the writer, the panic that ended the call if
  there was one, and the errors printed.
\<close>

record ('w, 'e) served =
  writer :: 'w
  panicked :: "panic option"
  printed :: "'e list"

text \<open>
  The common end of both \<^verbatim>\<open>ServeHTTP\<close> methods (handlers.go, lines 80 to 86): the
  content type, the status, and the encoded value in one \<^verbatim>\<open>Write\<close>. An error of
  the encoder, from marshalling or from the \<^verbatim>\<open>Write\<close>, is printed.
\<close>

definition write_response ::
  "('e, 'i, 'a) codec \<Rightarrow> ('w, 'e) ResponseWriter \<Rightarrow> 'a any \<Rightarrow> int \<Rightarrow> 'w \<Rightarrow> ('w, 'e) served" where
  "write_response c wi resp statusCode w =
     (let w1 = Header_Set wi ''Content-Type'' ''application/json'' w
      in case WriteHeader wi statusCode w1 of
           Inl p \<Rightarrow> \<lparr>writer = w1, panicked = Some p, printed = []\<rparr>
         | Inr w2 \<Rightarrow>
             (case Marshal c resp of
                Inl err \<Rightarrow> \<lparr>writer = w2, panicked = None, printed = [err]\<rparr>
              | Inr bytes \<Rightarrow>
                  (case Write wi bytes w2 of
                     (None, w3) \<Rightarrow> \<lparr>writer = w3, panicked = None, printed = []\<rparr>
                   | (Some err, w3) \<Rightarrow> \<lparr>writer = w3, panicked = None, printed = [err]\<rparr>)))"

text \<open>
  \<^verbatim>\<open>JSONPayloadHandler[I, O].ServeHTTP\<close>. The business callback \<open>handlerFunc\<close>
  receives the writer, the request and the decoded payload; it may use the writer, and
  it acts on a state \<open>'s\<close> of its own, which is where a test counts its invocations.
\<close>

definition JSONPayloadHandler_ServeHTTP ::
  "('e, 'a) globals \<Rightarrow> ('e, 'i, 'a) codec \<Rightarrow> ('w, 'e) ResponseWriter
     \<Rightarrow> ('w \<Rightarrow> request \<Rightarrow> 'i \<Rightarrow> 's \<Rightarrow> (('a \<times> int) \<times> 'w) \<times> 's)
     \<Rightarrow> 'w \<Rightarrow> request \<Rightarrow> 's \<Rightarrow> ('w, 'e) served \<times> 's" where
  "JSONPayloadHandler_ServeHTTP g c wi handlerFunc w r st =
     (case Decode c (Body r) of
        Inr payload \<Rightarrow>
          (case handlerFunc w r payload st of
             (((resp, statusCode), w'), st') \<Rightarrow>
               (write_response c wi (Value resp) statusCode w', st'))
      | Inl err \<Rightarrow>
          (case defaultInvalidJSONPayloadHandler g err of
             (resp, statusCode) \<Rightarrow> (write_response c wi resp statusCode w, st)))"

text \<open>
  Modelled from the spec: the writers of net/http are not under src/; the spec says only
  that the handler sets the content type and writes a status header before the body.
  This is the writer of \<^verbatim>\<open>net/http/httptest\<close>, which behaves as the server's own
  does: the first \<^verbatim>\<open>WriteHeader\<close> fixes status and headers and panics for a status
  outside 100 to 999, later ones are ignored; a \<^verbatim>\<open>Write\<close> before any
  \<^verbatim>\<open>WriteHeader\<close> writes status 200 first, and never fails.
\<close>

record recorder =
  Code :: int
  HeaderMap :: "(string \<times> string) list"
  Body_buffer :: string
  wroteHeader :: bool

definition NewRecorder :: recorder where
  "NewRecorder = \<lparr>Code = 200, HeaderMap = [], Body_buffer = [], wroteHeader = False\<rparr>"

definition recorder_WriteHeader :: "int \<Rightarrow> recorder \<Rightarrow> panic + recorder" where
  "recorder_WriteHeader code rw =
     (if wroteHeader rw then Inr rw
      else if code < 100 \<or> 999 < code then Inl (InvalidWriteHeaderCode code)
      else Inr (rw\<lparr>Code := code, wroteHeader := True\<rparr>))"

definition recorder_Write :: "string \<Rightarrow> recorder \<Rightarrow> 'e option \<times> recorder" where
  "recorder_Write bytes rw =
     (None, (if wroteHeader rw then rw else rw\<lparr>Code := 200, wroteHeader := True\<rparr>)
              \<lparr>Body_buffer := Body_buffer rw @ bytes\<rparr>)"

definition ResponseRecorder :: "(recorder, 'e) ResponseWriter" where
  "ResponseRecorder =
     \<lparr>Header_Set = (\<lambda>k v rw. if wroteHeader rw then rw
                               else rw\<lparr>HeaderMap := AList.update k v (HeaderMap rw)\<rparr>),
      WriteHeader = recorder_WriteHeader,
      Write = recorder_Write\<rparr>"

section \<open>Notions used in the statements\<close>

text \<open>The method names that have a case in the switch of the walk callback.\<close>

definition recognized_methods :: "string list" where
  "recognized_methods = [''GET'', ''PUT'', ''POST'', ''DELETE'', ''OPTIONS'', ''HEAD'', ''PATCH'']"

text \<open>The paths map once a path item exists for the route: an empty one is added on first sight.\<close>

definition ensure_path :: "string \<Rightarrow> (string \<times> pathItem) list \<Rightarrow> (string \<times> pathItem) list" where
  "ensure_path route ps = (if has_key ps route then ps else ps @ [(route, empty_PathItem)])"

text \<open>
  The elements of a list in the order of their first occurrence; the slot of a path item
  that the switch assigns for a method name; and a route pattern written out as static
  text and placeholders, \<open>static\<^sub>1{name\<^sub>1}static\<^sub>2{name\<^sub>2}\<dots>tail\<close>, with no brace in the
  static text that could open a placeholder, and nonempty names without \<open>}\<close>.
\<close>

fun first_occurrences :: "'a list \<Rightarrow> 'a list" where
  "first_occurrences [] = []"
| "first_occurrences (x # xs) = x # filter (\<lambda>y. y \<noteq> x) (first_occurrences xs)"

definition slot :: "string \<Rightarrow> pathItem \<Rightarrow> operation option" where
  "slot method pathItem =
     (if method = ''GET'' then Get pathItem
      else if method = ''PUT'' then Put pathItem
      else if method = ''POST'' then Post pathItem
      else if method = ''DELETE'' then Delete pathItem
      else if method = ''OPTIONS'' then Options pathItem
      else if method = ''HEAD'' then Head pathItem
      else if method = ''PATCH'' then Patch pathItem
      else None)"

fun route_pattern :: "(string \<times> string) list \<Rightarrow> string \<Rightarrow> string" where
  "route_pattern [] tail = tail"
| "route_pattern ((static, name) # segs) tail =
     static @ ''{'' @ name @ ''}'' @ route_pattern segs tail"

definition plain_segments :: "(string \<times> string) list \<Rightarrow> string \<Rightarrow> bool" where
  "plain_segments segs tail \<longleftrightarrow>
     (\<forall>(static, name) \<in> set segs.
        CHR ''{'' \<notin> set static \<and> name \<noteq> [] \<and> CHR ''}'' \<notin> set name)
     \<and> CHR ''{'' \<notin> set tail"

text \<open>
  What the fields of a struct contribute to its schema: for every field, in declaration
  order, whose type has a schema, the first comma-separated token of its json tag and
  that schema. Fields whose type has none are left out.
\<close>

fun field_properties :: "structField list \<Rightarrow> (string \<times> schema) list" where
  "field_properties [] = []"
| "field_properties (StructField nm tag ty # fs) =
     (case snd (getProperty ty) of
        Inr (Some p) \<Rightarrow> (Split_comma_0 tag, p) # field_properties fs
      | _ \<Rightarrow> field_properties fs)"

text \<open>
  The types that a walk registers: for every visited route, the payload type and the
  response type that its handler declares, where it declares one that is not nil.
\<close>

definition handler_types :: "handler \<Rightarrow> rtype list" where
  "handler_types h =
     (case as_PayloadTyper h of Some (Some t) \<Rightarrow> [t] | _ \<Rightarrow> [])
       @ (case as_ResponseTyper h of Some (Some t) \<Rightarrow> [t] | _ \<Rightarrow> [])"

definition registered_types :: "route_entry list \<Rightarrow> rtype list" where
  "registered_types routes = concat (map (\<lambda>(m, r, h). handler_types h) routes)"

text \<open>Writing a list of entries into a map, one after the other.\<close>

definition update_all :: "('k \<times> 'v) list \<Rightarrow> ('k \<times> 'v) list \<Rightarrow> ('k \<times> 'v) list" where
  "update_all kvs al = foldl (\<lambda>acc kv. AList.update (fst kv) (snd kv) acc) al kvs"

text \<open>The references that occur in a schema, at any depth.\<close>

fun refs_of :: "schema \<Rightarrow> string list" where
  "refs_of (Schema ty fmt items props nul ref) =
     (if ref = [] then [] else [ref])
       @ (case items of None \<Rightarrow> [] | Some i \<Rightarrow> refs_of i)
       @ concat (map (\<lambda>kp. refs_of (snd kp)) props)"

text \<open>
  Example types: two structs with a field of the same named struct type, and the
  document of two routes that both respond with the first.
\<close>

definition example_Inner :: rtype where
  "example_Inner = RType ''Inner'' ''main.Inner''
     (Struct [StructField ''X'' ''x'' (RType ''int'' ''int'' Int_kind)])"

definition example_A :: rtype where
  "example_A = RType ''A'' ''main.A'' (Struct [StructField ''Inner'' ''inner'' example_Inner])"

definition example_B :: rtype where
  "example_B = RType ''B'' ''main.B'' (Struct [StructField ''Inner'' ''inner'' example_Inner])"

definition example_Inner_schema :: schema where
  "example_Inner_schema =
     Schema [] [] None [(''x'', Schema [''integer''] ''int64'' None [] False [])] False []"

definition example_A_schema :: schema where
  "example_A_schema = Schema [] [] None [(''inner'', example_Inner_schema)] False []"

definition example_operation :: operation where
  "example_operation =
     \<lparr>Parameters = [],
      Responses = [(200, \<lparr>rSchema = Some (Schema [] [] None [] False ''#/definitions/A'')\<rparr>)]\<rparr>"

definition example_doc :: swagger where
  "example_doc =
     \<lparr>Swagger = ''2.0'', Definitions = [(''A'', example_A_schema)],
      Paths = [(''/a'', empty_PathItem\<lparr>Get := Some example_operation,
                                        Post := Some example_operation\<rparr>)]\<rparr>"

text \<open>
  A codec and two counting callbacks for running the JSON handler on examples; the
  second returns status 0.
\<close>

definition example_codec :: "(string, nat, nat) codec" where
  "example_codec =
     \<lparr>Decode = (\<lambda>b. if b = ''7'' then Inr 7 else Inl ''invalid character''),
      Marshal = (\<lambda>v. case v of String_value s \<Rightarrow> Inr s | Value n \<Rightarrow> Inr ''ok'')\<rparr>"

definition counting_callback ::
  "recorder \<Rightarrow> request \<Rightarrow> nat \<Rightarrow> nat \<Rightarrow> ((nat \<times> int) \<times> recorder) \<times> nat" where
  "counting_callback w r payload counter = (((payload, 201), w), Suc counter)"

definition status0_callback ::
  "recorder \<Rightarrow> request \<Rightarrow> nat \<Rightarrow> nat \<Rightarrow> ((nat \<times> int) \<times> recorder) \<times> nat" where
  "status0_callback w r payload counter = (((payload, 0), w), Suc counter)"

section \<open>Claims about the schema builder\<close>

text \<open>
  C1 (fails on the code). The claim: \<open>getProperty\<close> never panics, and for a pointer whose
  pointee is unsupported it logs a diagnostic and returns no schema. For the type
  \<^verbatim>\<open>*map[string]int\<close> the recursive call logs the diagnostic and returns nil, and
  the pointer case then assigns \<^verbatim>\<open>property.Nullable\<close> through that nil pointer: the
  call panics instead of returning. The struct loop and \<open>addDefinition\<close> both test the
  result against nil; the pointer case does not.
\<close>

theorem getProperty_pointer_to_unsupported_panics:
  "getProperty (RType [] ''*map[string]int'' (Pointer (RType [] ''map[string]int'' Map)))
     = ([''Unknown kind for swagger property:  map''], Inl NilPointerDereference)"
  by (simp add: ReplaceAll_slash_dot_def)

section \<open>The route walker: paths\<close>


lemma bind_logged_Inr:
  "bind_logged m f = (lg, Inr y) \<longleftrightarrow>
     (\<exists>lg1 x lg2. m = (lg1, Inr x) \<and> f x = (lg2, Inr y) \<and> lg = lg1 @ lg2)"
  by (cases m) (auto simp: bind_logged_def split: sum.splits prod.splits)

lemma update_absent: "map_of al k = None \<Longrightarrow> AList.update k v al = al @ [(k, v)]"
  by (induction al) (auto split: if_splits)

lemma addDefinition_Paths: "addDefinition doc t = (lg, Inr doc') \<Longrightarrow> Paths doc' = Paths doc"
  by (auto simp: addDefinition_def split: if_splits prod.splits sum.splits option.splits)

lemma add_body_param_Paths:
  "add_body_param h (doc, op) = (lg, Inr (doc', op')) \<Longrightarrow> Paths doc' = Paths doc"
  by (auto simp: add_body_param_def bind_logged_Inr addDefinition_Paths split: option.splits)

lemma add_response_Paths:
  "add_response h (doc, op) = (lg, Inr (doc', op')) \<Longrightarrow> Paths doc' = Paths doc"
  by (auto simp: add_response_def bind_logged_Inr addDefinition_Paths split: option.splits)

lemma map_of_ensure_path:
  "map_of (ensure_path r ps) k =
    (if k = r then Some (case map_of ps r of None \<Rightarrow> empty_PathItem | Some i \<Rightarrow> i) else map_of ps k)"
  by (auto simp: ensure_path_def has_key_def map_add_def split: option.splits)

lemma addDefinition_body_only:
  "add_body_param h (doc, NewOperation) = (lg, Inr (doc', op')) \<Longrightarrow>
   \<forall>p \<in> set (Parameters op'). In p = ''body''"
  by (auto simp: add_body_param_def bind_logged_Inr NewOperation_def AddParam_def BodyParam_def
      split: option.splits)

lemma add_response_Parameters:
  "add_response h (doc, op) = (lg, Inr (doc', op')) \<Longrightarrow> Parameters op' = Parameters op"
  by (auto simp: add_response_def bind_logged_Inr RespondsWith_def split: option.splits)

lemma walkFn_operation:
  assumes "walkFn m r h doc = (lg, Inr doc')"
  shows "\<exists>op3. (\<forall>p \<in> set (Parameters op3). In p = ''body'') \<and>
           Paths doc' =
           AList.update r
             (attach m (add_path_params r op3)
                (case map_of (Paths doc) r of None \<Rightarrow> empty_PathItem | Some i \<Rightarrow> i))
             (ensure_path r (Paths doc))"
proof -
  define doc1 where "doc1 = (if has_key (Paths doc) r then doc
                  else doc\<lparr>Paths := AList.update r empty_PathItem (Paths doc)\<rparr>)"
  have p1: "Paths doc1 = ensure_path r (Paths doc)"
    by (simp add: doc1_def ensure_path_def has_key_def update_absent)
  from assms obtain lg1 doc2 op2 lg2 doc3 op3 where
    a: "add_body_param h (doc1, NewOperation) = (lg1, Inr (doc2, op2))" and
    b: "add_response h (doc2, op2) = (lg2, Inr (doc3, op3))" and
    c: "doc' = doc3\<lparr>Paths := AList.update r
           (attach m (add_path_params r op3)
              (case map_of (Paths doc3) r of None \<Rightarrow> empty_PathItem | Some i \<Rightarrow> i))
           (Paths doc3)\<rparr>"
    unfolding walkFn_def Let_def doc1_def [symmetric]
    by (auto simp: bind_logged_Inr)
  have p3: "Paths doc3 = ensure_path r (Paths doc)"
    using add_body_param_Paths [OF a] add_response_Paths [OF b] p1 by simp
  have body: "\<forall>p \<in> set (Parameters op3). In p = ''body''"
    using addDefinition_body_only [OF a] add_response_Parameters [OF b] by simp
  have "Paths doc' = AList.update r
             (attach m (add_path_params r op3)
                (case map_of (Paths doc) r of None \<Rightarrow> empty_PathItem | Some i \<Rightarrow> i))
             (ensure_path r (Paths doc))"
    unfolding c using p3 by (auto simp: map_of_ensure_path)
  with body show ?thesis by blast
qed

lemma walkFn_Paths:
  assumes "walkFn m r h doc = (lg, Inr doc')"
  shows "\<exists>op. Paths doc' =
           AList.update r
             (attach m op (case map_of (Paths doc) r of None \<Rightarrow> empty_PathItem | Some i \<Rightarrow> i))
             (ensure_path r (Paths doc))"
  using walkFn_operation [OF assms] by blast

lemma attach_unrecognized:
  "method \<notin> set recognized_methods \<Longrightarrow> attach method operation pathItem = pathItem"
  by (simp add: attach_def recognized_methods_def)

lemma walkFn_unrecognized_Paths:
  assumes "method \<notin> set recognized_methods" "walkFn method r h doc = (lg, Inr doc')"
  shows "Paths doc' = ensure_path r (Paths doc)"
proof -
  from walkFn_Paths [OF assms(2)] obtain op where
    "Paths doc' = AList.update r
             (attach method op (case map_of (Paths doc) r of None \<Rightarrow> empty_PathItem | Some i \<Rightarrow> i))
             (ensure_path r (Paths doc))" ..
  then show ?thesis
    by (simp add: attach_unrecognized [OF assms(1)] AList.update_triv map_of_ensure_path)
qed

lemma walkFn_log_method:
  "fst (walkFn m r h doc) = fst (walkFn m' r h doc)"
  by (auto simp: walkFn_def Let_def bind_logged_def split: prod.splits sum.splits)

lemma walkFn_Definitions_method:
  "map_sum id Definitions (snd (walkFn m r h doc)) = map_sum id Definitions (snd (walkFn m' r h doc))"
  by (auto simp: walkFn_def Let_def bind_logged_def split: prod.splits sum.splits)

lemma walkFn_map_of:
  assumes "walkFn m r h doc = (lg, Inr doc')"
  shows "\<exists>op. map_of (Paths doc') = (map_of (Paths doc))
           (r \<mapsto> attach m op (case map_of (Paths doc) r of None \<Rightarrow> empty_PathItem | Some i \<Rightarrow> i))"
proof -
  from walkFn_Paths [OF assms] obtain op where
    "Paths doc' = AList.update r
             (attach m op (case map_of (Paths doc) r of None \<Rightarrow> empty_PathItem | Some i \<Rightarrow> i))
             (ensure_path r (Paths doc))" ..
  then have "map_of (Paths doc') = (map_of (Paths doc))
           (r \<mapsto> attach m op (case map_of (Paths doc) r of None \<Rightarrow> empty_PathItem | Some i \<Rightarrow> i))"
    by (auto simp: AList.update_conv' map_of_ensure_path fun_eq_iff)
  then show ?thesis ..
qed

lemma walkFn_has_key:
  "walkFn m r h doc = (lg, Inr doc') \<Longrightarrow> has_key (Paths doc') k \<longleftrightarrow> k = r \<or> has_key (Paths doc) k"
  by (drule walkFn_map_of) (auto simp: has_key_def)

lemma Walk_has_key_mono:
  "Walk rs doc = (lg, Inr doc') \<Longrightarrow> has_key (Paths doc) k \<Longrightarrow> has_key (Paths doc') k"
proof (induction rs arbitrary: doc lg)
  case Nil
  then show ?case by simp
next
  case (Cons e rs)
  obtain m r h where e: "e = (m, r, h)" by (cases e)
  from Cons.prems(1) obtain lg1 d1 lg2 where
    s: "walkFn m r h doc = (lg1, Inr d1)" and w: "Walk rs d1 = (lg2, Inr doc')"
    by (auto simp: e bind_logged_Inr)
  from walkFn_has_key [OF s] Cons.prems(2) have "has_key (Paths d1) k" by simp
  with Cons.IH [OF w] show ?case .
qed

lemma Walk_has_key:
  "Walk rs doc = (lg, Inr doc') \<Longrightarrow> (m, r, h) \<in> set rs \<Longrightarrow> has_key (Paths doc') r"
proof (induction rs arbitrary: doc lg)
  case Nil
  then show ?case by simp
next
  case (Cons e rs)
  obtain m' r' h' where e: "e = (m', r', h')" by (cases e)
  from Cons.prems(1) obtain lg1 d1 lg2 where
    s: "walkFn m' r' h' doc = (lg1, Inr d1)" and w: "Walk rs d1 = (lg2, Inr doc')"
    by (auto simp: e bind_logged_Inr)
  show ?case
  proof (cases "(m, r, h) = e")
    case True
    then have "has_key (Paths d1) r" using walkFn_has_key [OF s] e by simp
    then show ?thesis by (rule Walk_has_key_mono [OF w])
  next
    case False
    with Cons.prems(2) have "(m, r, h) \<in> set rs" by simp
    then show ?thesis by (rule Cons.IH [OF w])
  qed
qed

lemma Walk_no_operations:
  "Walk rs doc = (lg, Inr doc') \<Longrightarrow>
   \<forall>(m, r', h) \<in> set rs. r' = r \<longrightarrow> m \<notin> set recognized_methods \<Longrightarrow>
   map_of (Paths doc) r = None \<or> map_of (Paths doc) r = Some empty_PathItem \<Longrightarrow>
   map_of (Paths doc') r = None \<or> map_of (Paths doc') r = Some empty_PathItem"
proof (induction rs arbitrary: doc lg)
  case Nil
  then show ?case by simp
next
  case (Cons e rs)
  obtain m' r' h' where e: "e = (m', r', h')" by (cases e)
  from Cons.prems(1) obtain lg1 d1 lg2 where
    s: "walkFn m' r' h' doc = (lg1, Inr d1)" and w: "Walk rs d1 = (lg2, Inr doc')"
    by (auto simp: e bind_logged_Inr)
  from Cons.prems(2) have rest: "\<forall>(m, r', h) \<in> set rs. r' = r \<longrightarrow> m \<notin> set recognized_methods"
    by simp
  have "map_of (Paths d1) r = None \<or> map_of (Paths d1) r = Some empty_PathItem"
  proof (cases "r' = r")
    case True
    with Cons.prems(2) e have "m' \<notin> set recognized_methods" by simp
    from walkFn_unrecognized_Paths [OF this s] Cons.prems(3) True show ?thesis
      by (auto simp: map_of_ensure_path)
  next
    case False
    with walkFn_map_of [OF s] Cons.prems(3) show ?thesis by auto
  qed
  with Cons.IH [OF w rest] show ?case .
qed

text \<open>
  C10. Whenever the build returns a document, the pattern of every walked route is a key
  of its paths map, whatever the route's method; and a pattern all of whose routes have
  methods outside the switch is mapped to the path item with no operation. (The path
  item is created by the first statement of the callback, before anything that can
  panic.)
\<close>

theorem initializeDoc_route_is_key:
  assumes "initializeDoc routes = (lg, Inr doc)" and "(method, route, handler) \<in> set routes"
  shows "has_key (Paths doc) route
    \<and> ((\<forall>(m, r, h) \<in> set routes. r = route \<longrightarrow> m \<notin> set recognized_methods)
         \<longrightarrow> map_of (Paths doc) route = Some empty_PathItem)"
proof -
  from assms have k: "has_key (Paths doc) route"
    unfolding initializeDoc_def by (rule Walk_has_key)
  have "map_of (Paths doc) route = Some empty_PathItem"
    if "\<forall>(m, r, h) \<in> set routes. r = route \<longrightarrow> m \<notin> set recognized_methods"
    using Walk_no_operations [OF assms(1) [unfolded initializeDoc_def] that] k
    by (auto simp: has_key_def)
  with k show ?thesis by simp
qed

theorem initializeDoc_route_is_key_witness:
  "initializeDoc [(''TRACE'', ''/ping'', OtherHandler None None)] =
     ([], Inr \<lparr>Swagger = ''2.0'', Definitions = [], Paths = [(''/ping'', empty_PathItem)]\<rparr>)
   \<and> (''TRACE'', ''/ping'', OtherHandler None None) \<in> set [(''TRACE'', ''/ping'', OtherHandler None None)]
   \<and> has_key (Paths \<lparr>Swagger = ''2.0'', Definitions = [], Paths = [(''/ping'', empty_PathItem)]\<rparr>) ''/ping''
   \<and> map_of (Paths \<lparr>Swagger = ''2.0'', Definitions = [], Paths = [(''/ping'', empty_PathItem)]\<rparr>) ''/ping''
       = Some empty_PathItem"
proof -
  have run: "initializeDoc [(''TRACE'', ''/ping'', OtherHandler None None)] =
     ([], Inr \<lparr>Swagger = ''2.0'', Definitions = [], Paths = [(''/ping'', empty_PathItem)]\<rparr>)"
    by (simp add: initializeDoc_def walkFn_def bind_logged_def add_body_param_def
        add_response_def has_key_def add_path_params_def attach_def)
  have mem: "(''TRACE'', ''/ping'', OtherHandler None None)
      \<in> set [(''TRACE'', ''/ping'', OtherHandler None None)]" by simp
  have unrec: "\<forall>(m, r, h) \<in> set [(''TRACE'', ''/ping'', OtherHandler None None)].
         r = ''/ping'' \<longrightarrow> m \<notin> set recognized_methods"
    by (simp add: recognized_methods_def)
  from initializeDoc_route_is_key [OF run mem] run mem unrec show ?thesis by blast
qed

text \<open>
  C8. For a method outside the switch the operation is attached to no slot: the switch
  returns the path item as it was, so the callback leaves the paths map as it is once
  the route has its path item. Nothing is logged for the method and nothing else
  depends on it: the lines logged, and the definitions table or panic the callback ends
  with, are those of the same route under any other method.
\<close>

theorem walkFn_unrecognized_method:
  assumes "method \<notin> set recognized_methods"
  shows "attach method operation pathItem = pathItem
    \<and> (walkFn method route handler doc = (lg, Inr doc')
         \<longrightarrow> Paths doc' = ensure_path route (Paths doc))
    \<and> fst (walkFn method route handler doc) = fst (walkFn method' route handler doc)
    \<and> map_sum id Definitions (snd (walkFn method route handler doc))
         = map_sum id Definitions (snd (walkFn method' route handler doc))"
proof -
  note u = assms
  have "fst (walkFn method route handler doc) = fst (walkFn method' route handler doc)"
    by (rule walkFn_log_method)
  moreover have "map_sum id Definitions (snd (walkFn method route handler doc))
         = map_sum id Definitions (snd (walkFn method' route handler doc))"
    by (rule walkFn_Definitions_method)
  moreover have "attach method operation pathItem = pathItem"
    using u by (rule attach_unrecognized)
  moreover have "Paths doc' = ensure_path route (Paths doc)"
    if "walkFn method route handler doc = (lg, Inr doc')"
    using u that by (rule walkFn_unrecognized_Paths)
  ultimately show ?thesis by blast
qed

theorem walkFn_unrecognized_method_witness:
  "''TRACE'' \<notin> set recognized_methods
   \<and> walkFn ''TRACE'' ''/ping'' (NewJSONHandler (RType ''Pong'' ''main.Pong'' (Struct [])))
        \<lparr>Swagger = ''2.0'', Definitions = [], Paths = []\<rparr>
      = ([], Inr \<lparr>Swagger = ''2.0'', Definitions = [(''Pong'', Schema [] [] None [] False [])],
                  Paths = [(''/ping'', empty_PathItem)]\<rparr>)
   \<and> Paths \<lparr>Swagger = ''2.0'', Definitions = [(''Pong'', Schema [] [] None [] False [])],
             Paths = [(''/ping'', empty_PathItem)]\<rparr>
      = ensure_path ''/ping'' (Paths \<lparr>Swagger = ''2.0'', Definitions = [], Paths = []\<rparr>)"
proof -
  have m: "''TRACE'' \<notin> set recognized_methods"
    by (simp add: recognized_methods_def)
  have run: "walkFn ''TRACE'' ''/ping'' (NewJSONHandler (RType ''Pong'' ''main.Pong'' (Struct [])))
        \<lparr>Swagger = ''2.0'', Definitions = [], Paths = []\<rparr>
      = ([], Inr \<lparr>Swagger = ''2.0'', Definitions = [(''Pong'', Schema [] [] None [] False [])],
                  Paths = [(''/ping'', empty_PathItem)]\<rparr>)"
    by (simp add: walkFn_def bind_logged_def add_body_param_def add_response_def has_key_def
        add_path_params_def attach_def NewJSONHandler_def TypeOf_zero_def addDefinition_def
        ReplaceAll_slash_dot_def)
  from walkFn_unrecognized_method [OF m, of _ _ "''/ping''"
      "NewJSONHandler (RType ''Pong'' ''main.Pong'' (Struct []))"
      "\<lparr>Swagger = ''2.0'', Definitions = [], Paths = []\<rparr>" "[]"
      "\<lparr>Swagger = ''2.0'', Definitions = [(''Pong'', Schema [] [] None [] False [])],
        Paths = [(''/ping'', empty_PathItem)]\<rparr>"] m run
  show ?thesis by blast
qed

section \<open>Claims about the handlers\<close>

text \<open>
  C2 (fails on the code). The claim: a handler made by \<open>NewJSONPayloadHandler\<close> has the
  body-type and the response-type capability, so the walker attaches a body parameter
  and a success response. \<^verbatim>\<open>PayloadType\<close> and \<^verbatim>\<open>ResponseType\<close> are declared on
  the function type \<^verbatim>\<open>JSONPayloadHandlerFunc\<close>, not on the struct that
  \<open>NewJSONPayloadHandler\<close> returns: both type assertions of the walker fail for it, for
  every \<open>I\<close> and \<open>O\<close>, and the operation of its route has no parameter, no response
  and no definition. (\<open>JSONHandler\<close> declares \<^verbatim>\<open>ResponseType\<close> on the struct.)
\<close>

theorem NewJSONPayloadHandler_has_no_capability:
  "as_PayloadTyper (NewJSONPayloadHandler I' O') = None
   \<and> as_ResponseTyper (NewJSONPayloadHandler I' O') = None
   \<and> initializeDoc [(''POST'', ''/widgets'', NewJSONPayloadHandler I' O')] =
       ([], Inr \<lparr>Swagger = ''2.0'', Definitions = [],
                 Paths = [(''/widgets'',
                           empty_PathItem\<lparr>Post := Some \<lparr>Parameters = [], Responses = []\<rparr>\<rparr>)]\<rparr>)"
  by (simp add: initializeDoc_def NewJSONPayloadHandler_def walkFn_def bind_logged_def
      add_body_param_def add_response_def has_key_def add_path_params_def attach_def
      NewOperation_def)

lemma write_response_panic:
  "WriteHeader wi code (Header_Set wi ''Content-Type'' ''application/json'' w) = Inl p \<Longrightarrow>
   write_response c wi v code w
     = \<lparr>writer = Header_Set wi ''Content-Type'' ''application/json'' w, panicked = Some p,
        printed = []\<rparr>"
  by (simp add: write_response_def)

lemma write_response_marshal_error:
  "WriteHeader wi code (Header_Set wi ''Content-Type'' ''application/json'' w) = Inr w_status \<Longrightarrow>
   Marshal c v = Inl e \<Longrightarrow>
   write_response c wi v code w = \<lparr>writer = w_status, panicked = None, printed = [e]\<rparr>"
  by (simp add: write_response_def)

lemma write_response_written:
  "WriteHeader wi code (Header_Set wi ''Content-Type'' ''application/json'' w) = Inr w_status \<Longrightarrow>
   Marshal c v = Inr bytes \<Longrightarrow> Write wi bytes w_status = (werr, w_body) \<Longrightarrow>
   write_response c wi v code w
     = \<lparr>writer = w_body, panicked = None, printed = (case werr of None \<Rightarrow> [] | Some e \<Rightarrow> [e])\<rparr>"
  by (cases werr) (simp_all add: write_response_def)

text \<open>
  C7 (fails as stated). The claim: for every request the status and the value, of the
  fallback when the body does not decode and of the callback when it does, are written
  as the response. The status goes to \<^verbatim>\<open>WriteHeader\<close> unchecked. On a writer of
  net/http a callback that returns status 0, for a body that decodes and a value that
  encodes, makes \<^verbatim>\<open>WriteHeader\<close> panic: no status and no body are written.
\<close>

theorem JSONPayloadHandler_ServeHTTP_decode_counterexample:
  "Decode example_codec (Body \<lparr>Body = ''7''\<rparr>) = Inr 7
   \<and> Marshal example_codec (Value 7) = Inr ''ok''
   \<and> JSONPayloadHandler_ServeHTTP init_globals example_codec ResponseRecorder status0_callback
        NewRecorder \<lparr>Body = ''7''\<rparr> 0
     = (\<lparr>writer = \<lparr>Code = 200, HeaderMap = [(''Content-Type'', ''application/json'')],
                    Body_buffer = [], wroteHeader = False\<rparr>,
         panicked = Some (InvalidWriteHeaderCode 0), printed = []\<rparr>, Suc 0)"
  by (simp add: example_codec_def JSONPayloadHandler_ServeHTTP_def status0_callback_def
      write_response_def ResponseRecorder_def NewRecorder_def recorder_WriteHeader_def)

text \<open>
  C7, amended. When the body does not decode, the callback is not invoked (the writer
  and the callback's state are as before, whatever the callback is) and the value and
  status are those the fallback in force returns for the error; when the body decodes,
  the callback is invoked once with the writer, the request and the decoded value, and
  the value and status are those it returns. In both cases the handler sets the content
  type and passes the status to \<^verbatim>\<open>WriteHeader\<close>. If that returns and the value
  encodes, the encoded bytes are written in one \<^verbatim>\<open>Write\<close>, whose error, if any, is
  printed; if the value does not encode, nothing is written after the status and the
  error is printed; if \<^verbatim>\<open>WriteHeader\<close> panics, nothing is written at all.
\<close>

theorem JSONPayloadHandler_ServeHTTP_decode:
  assumes "Decode c (Body r) = Inl err \<and> defaultInvalidJSONPayloadHandler g err = (v, code)
         \<and> w' = w \<and> st' = st
     \<or> Decode c (Body r) = Inr payload \<and> handlerFunc w r payload st = (((x, code), w'), st')
         \<and> v = Value x"
  shows "(WriteHeader wi code (Header_Set wi ''Content-Type'' ''application/json'' w') = Inr w_status
          \<and> Marshal c v = Inr bytes \<and> Write wi bytes w_status = (werr, w_body)
        \<longrightarrow> JSONPayloadHandler_ServeHTTP g c wi handlerFunc w r st
             = (\<lparr>writer = w_body, panicked = None,
                  printed = (case werr of None \<Rightarrow> [] | Some e \<Rightarrow> [e])\<rparr>, st'))
     \<and> (WriteHeader wi code (Header_Set wi ''Content-Type'' ''application/json'' w') = Inr w_status
          \<and> Marshal c v = Inl e
        \<longrightarrow> JSONPayloadHandler_ServeHTTP g c wi handlerFunc w r st
             = (\<lparr>writer = w_status, panicked = None, printed = [e]\<rparr>, st'))
     \<and> (WriteHeader wi code (Header_Set wi ''Content-Type'' ''application/json'' w') = Inl p
        \<longrightarrow> JSONPayloadHandler_ServeHTTP g c wi handlerFunc w r st
             = (\<lparr>writer = Header_Set wi ''Content-Type'' ''application/json'' w',
                  panicked = Some p, printed = []\<rparr>, st'))"
proof -
  have s: "JSONPayloadHandler_ServeHTTP g c wi handlerFunc w r st
      = (write_response c wi v code w', st')"
    using assms by (auto simp: JSONPayloadHandler_ServeHTTP_def)
  show ?thesis
    unfolding s
    by (simp add: write_response_panic write_response_marshal_error write_response_written)
qed

theorem JSONPayloadHandler_ServeHTTP_decode_witness:
  "Decode example_codec (Body \<lparr>Body = ''x''\<rparr>) = Inl ''invalid character''
   \<and> JSONPayloadHandler_ServeHTTP init_globals example_codec ResponseRecorder counting_callback
        NewRecorder \<lparr>Body = ''x''\<rparr> 0
     = (\<lparr>writer = \<lparr>Code = 502, HeaderMap = [(''Content-Type'', ''application/json'')],
                    Body_buffer = ''Invalid payload'', wroteHeader = True\<rparr>,
         panicked = None, printed = []\<rparr>, 0)
   \<and> Decode example_codec (Body \<lparr>Body = ''7''\<rparr>) = Inr 7
   \<and> JSONPayloadHandler_ServeHTTP init_globals example_codec ResponseRecorder counting_callback
        NewRecorder \<lparr>Body = ''7''\<rparr> 0
     = (\<lparr>writer = \<lparr>Code = 201, HeaderMap = [(''Content-Type'', ''application/json'')],
                    Body_buffer = ''ok'', wroteHeader = True\<rparr>,
         panicked = None, printed = []\<rparr>, Suc 0)"
proof -
  let ?w1 = "\<lparr>Code = 200, HeaderMap = [(''Content-Type'', ''application/json'')],
              Body_buffer = [], wroteHeader = False\<rparr>"
  have h: "Header_Set (ResponseRecorder :: (recorder, string) ResponseWriter) ''Content-Type'' ''application/json'' NewRecorder = ?w1"
    by (simp add: ResponseRecorder_def NewRecorder_def)
  have d1: "Decode example_codec (Body \<lparr>Body = ''x''\<rparr>) = Inl ''invalid character''"
    by (simp add: example_codec_def)
  have f1: "defaultInvalidJSONPayloadHandler (init_globals :: (string, nat) globals)
      ''invalid character'' = (String_value ''Invalid payload'', 502)"
    by (simp add: init_globals_def StatusBadGateway_def)
  have wh1: "WriteHeader (ResponseRecorder :: (recorder, string) ResponseWriter) 502
        (Header_Set (ResponseRecorder :: (recorder, string) ResponseWriter) ''Content-Type'' ''application/json'' NewRecorder)
      = Inr (?w1\<lparr>Code := 502, wroteHeader := True\<rparr>)"
    unfolding h by (simp add: ResponseRecorder_def recorder_WriteHeader_def)
  have m1: "Marshal example_codec (String_value ''Invalid payload'') = Inr ''Invalid payload''"
    by (simp add: example_codec_def)
  have wr1: "Write (ResponseRecorder :: (recorder, string) ResponseWriter) ''Invalid payload'' (?w1\<lparr>Code := 502, wroteHeader := True\<rparr>)
      = (None :: string option, \<lparr>Code = 502, HeaderMap = [(''Content-Type'', ''application/json'')],
                    Body_buffer = ''Invalid payload'', wroteHeader = True\<rparr>)"
    by (simp add: ResponseRecorder_def recorder_Write_def)
  have src1: "Decode example_codec (Body \<lparr>Body = ''x''\<rparr>) = Inl ''invalid character''
       \<and> defaultInvalidJSONPayloadHandler (init_globals :: (string, nat) globals)
            ''invalid character'' = (String_value ''Invalid payload'', 502)
       \<and> NewRecorder = NewRecorder \<and> (0::nat) = 0
     \<or> Decode example_codec (Body \<lparr>Body = ''x''\<rparr>) = Inr 7
       \<and> counting_callback NewRecorder \<lparr>Body = ''x''\<rparr> 7 0 = (((7, 502), NewRecorder), 0)
       \<and> String_value ''Invalid payload'' = Value 7"
    using d1 f1 by simp
  have r1: "JSONPayloadHandler_ServeHTTP init_globals example_codec ResponseRecorder
        counting_callback NewRecorder \<lparr>Body = ''x''\<rparr> 0
     = (\<lparr>writer = \<lparr>Code = 502, HeaderMap = [(''Content-Type'', ''application/json'')],
                    Body_buffer = ''Invalid payload'', wroteHeader = True\<rparr>,
         panicked = None, printed = []\<rparr>, 0)"
    using wh1 m1 wr1 JSONPayloadHandler_ServeHTTP_decode [where handlerFunc = counting_callback
        and wi = "ResponseRecorder :: (recorder, string) ResponseWriter"
        and w_status = "?w1\<lparr>Code := 502, wroteHeader := True\<rparr>"
        and bytes = "''Invalid payload''" and werr = None
        and w_body = "\<lparr>Code = 502, HeaderMap = [(''Content-Type'', ''application/json'')],
                    Body_buffer = ''Invalid payload'', wroteHeader = True\<rparr>", OF src1]
    by simp
  have d2: "Decode example_codec (Body \<lparr>Body = ''7''\<rparr>) = Inr 7"
    by (simp add: example_codec_def)
  have wh2: "WriteHeader (ResponseRecorder :: (recorder, string) ResponseWriter) 201
        (Header_Set (ResponseRecorder :: (recorder, string) ResponseWriter) ''Content-Type'' ''application/json'' NewRecorder)
      = Inr (?w1\<lparr>Code := 201, wroteHeader := True\<rparr>)"
    unfolding h by (simp add: ResponseRecorder_def recorder_WriteHeader_def)
  have m2: "Marshal example_codec (Value 7) = Inr ''ok''"
    by (simp add: example_codec_def)
  have wr2: "Write (ResponseRecorder :: (recorder, string) ResponseWriter) ''ok'' (?w1\<lparr>Code := 201, wroteHeader := True\<rparr>)
      = (None :: string option, \<lparr>Code = 201, HeaderMap = [(''Content-Type'', ''application/json'')],
                    Body_buffer = ''ok'', wroteHeader = True\<rparr>)"
    by (simp add: ResponseRecorder_def recorder_Write_def)
  have src2: "Decode example_codec (Body \<lparr>Body = ''7''\<rparr>) = Inl ''invalid character''
       \<and> defaultInvalidJSONPayloadHandler (init_globals :: (string, nat) globals)
            ''invalid character'' = (Value 7, 201)
       \<and> NewRecorder = NewRecorder \<and> Suc 0 = 0
     \<or> Decode example_codec (Body \<lparr>Body = ''7''\<rparr>) = Inr 7
       \<and> counting_callback NewRecorder \<lparr>Body = ''7''\<rparr> 7 0 = (((7, 201), NewRecorder), Suc 0)
       \<and> (Value 7 :: nat any) = Value 7"
    using d2 by (simp add: counting_callback_def)
  have r2: "JSONPayloadHandler_ServeHTTP init_globals example_codec ResponseRecorder
        counting_callback NewRecorder \<lparr>Body = ''7''\<rparr> 0
     = (\<lparr>writer = \<lparr>Code = 201, HeaderMap = [(''Content-Type'', ''application/json'')],
                    Body_buffer = ''ok'', wroteHeader = True\<rparr>,
         panicked = None, printed = []\<rparr>, Suc 0)"
    using wh2 m2 wr2 JSONPayloadHandler_ServeHTTP_decode [where handlerFunc = counting_callback
        and wi = "ResponseRecorder :: (recorder, string) ResponseWriter"
        and w_status = "?w1\<lparr>Code := 201, wroteHeader := True\<rparr>"
        and bytes = "''ok''" and werr = None
        and w_body = "\<lparr>Code = 201, HeaderMap = [(''Content-Type'', ''application/json'')],
                    Body_buffer = ''ok'', wroteHeader = True\<rparr>", OF src2]
    by simp
  from d1 r1 d2 r2 show ?thesis by blast
qed

text \<open>
  C9. The initial value of the package's fallback answers every decode error with the
  string \<open>Invalid payload\<close> and status 502, which is not in the range 400 to 499; the
  setter replaces it; and with the initial value in force a request whose body does not
  decode has status 502 passed to \<^verbatim>\<open>WriteHeader\<close> and the encoding of that string
  written as its body, the callback and its state untouched.
\<close>

theorem defaultInvalidJSONPayloadHandler_is_502:
  "defaultInvalidJSONPayloadHandler (init_globals :: ('e, 'a) globals) err
      = (String_value ''Invalid payload'', 502)
   \<and> \<not> (400 \<le> snd (defaultInvalidJSONPayloadHandler (init_globals :: ('e, 'a) globals) err)
        \<and> snd (defaultInvalidJSONPayloadHandler (init_globals :: ('e, 'a) globals) err) \<le> 499)
   \<and> defaultInvalidJSONPayloadHandler (SetDefaultInvalidJSONPayloadHandler fn g) = fn
   \<and> (Decode (c :: ('e, 'i, 'a) codec) (Body r) = Inl err
        \<and> WriteHeader wi 502 (Header_Set wi ''Content-Type'' ''application/json'' w) = Inr w_status
        \<and> Marshal c (String_value ''Invalid payload'') = Inr bytes
        \<and> Write wi bytes w_status = (werr, w_body)
      \<longrightarrow> JSONPayloadHandler_ServeHTTP init_globals c wi handlerFunc w r st
           = (\<lparr>writer = w_body, panicked = None,
                printed = (case werr of None \<Rightarrow> [] | Some e \<Rightarrow> [e])\<rparr>, st))
   \<and> (Decode c (Body r) = Inl err
        \<and> WriteHeader wi 502 (Header_Set wi ''Content-Type'' ''application/json'' w) = Inr w_status
        \<and> Marshal c (String_value ''Invalid payload'') = Inl e'
      \<longrightarrow> JSONPayloadHandler_ServeHTTP init_globals c wi handlerFunc w r st
           = (\<lparr>writer = w_status, panicked = None, printed = [e']\<rparr>, st))
   \<and> (Decode c (Body r) = Inl err
        \<and> WriteHeader wi 502 (Header_Set wi ''Content-Type'' ''application/json'' w) = Inl p
      \<longrightarrow> JSONPayloadHandler_ServeHTTP init_globals c wi handlerFunc w r st
           = (\<lparr>writer = Header_Set wi ''Content-Type'' ''application/json'' w,
                panicked = Some p, printed = []\<rparr>, st))"
proof -
  have s: "JSONPayloadHandler_ServeHTTP init_globals c wi handlerFunc w r st
      = (write_response c wi (String_value ''Invalid payload'') 502 w, st)"
    if "Decode c (Body r) = Inl err"
    using that by (simp add: JSONPayloadHandler_ServeHTTP_def init_globals_def StatusBadGateway_def)
  have d: "defaultInvalidJSONPayloadHandler (init_globals :: ('e, 'a) globals) err
      = (String_value ''Invalid payload'', 502)"
    by (simp add: init_globals_def StatusBadGateway_def)
  have t: "defaultInvalidJSONPayloadHandler (SetDefaultInvalidJSONPayloadHandler fn g) = fn"
    by (simp add: SetDefaultInvalidJSONPayloadHandler_def)
  from d t show ?thesis
    by (auto simp: s write_response_panic write_response_marshal_error write_response_written)
qed

theorem defaultInvalidJSONPayloadHandler_is_502_witness:
  "Decode example_codec (Body \<lparr>Body = ''x''\<rparr>) = Inl ''invalid character''
   \<and> JSONPayloadHandler_ServeHTTP init_globals example_codec ResponseRecorder counting_callback
        NewRecorder \<lparr>Body = ''x''\<rparr> (0::nat)
     = (\<lparr>writer = \<lparr>Code = 502, HeaderMap = [(''Content-Type'', ''application/json'')],
                    Body_buffer = ''Invalid payload'', wroteHeader = True\<rparr>,
         panicked = None, printed = []\<rparr>, 0)"
proof -
  let ?w1 = "\<lparr>Code = 200, HeaderMap = [(''Content-Type'', ''application/json'')],
              Body_buffer = [], wroteHeader = False\<rparr>"
  have h: "Header_Set (ResponseRecorder :: (recorder, string) ResponseWriter) ''Content-Type'' ''application/json'' NewRecorder = ?w1"
    by (simp add: ResponseRecorder_def NewRecorder_def)
  have d1: "Decode example_codec (Body \<lparr>Body = ''x''\<rparr>) = Inl ''invalid character''"
    by (simp add: example_codec_def)
  have wh1: "WriteHeader (ResponseRecorder :: (recorder, string) ResponseWriter) 502
        (Header_Set (ResponseRecorder :: (recorder, string) ResponseWriter) ''Content-Type'' ''application/json'' NewRecorder)
      = Inr (?w1\<lparr>Code := 502, wroteHeader := True\<rparr>)"
    unfolding h by (simp add: ResponseRecorder_def recorder_WriteHeader_def)
  have m1: "Marshal example_codec (String_value ''Invalid payload'') = Inr ''Invalid payload''"
    by (simp add: example_codec_def)
  have wr1: "Write (ResponseRecorder :: (recorder, string) ResponseWriter) ''Invalid payload'' (?w1\<lparr>Code := 502, wroteHeader := True\<rparr>)
      = (None :: string option, \<lparr>Code = 502, HeaderMap = [(''Content-Type'', ''application/json'')],
                    Body_buffer = ''Invalid payload'', wroteHeader = True\<rparr>)"
    by (simp add: ResponseRecorder_def recorder_Write_def)
  from d1 wh1 m1 wr1 defaultInvalidJSONPayloadHandler_is_502 [where c = example_codec
      and wi = "ResponseRecorder :: (recorder, string) ResponseWriter"
      and handlerFunc = counting_callback and st = "0::nat" and w = NewRecorder
      and g = "init_globals :: (string, nat) globals"
      and fn = "defaultInvalidJSONPayloadHandler (init_globals :: (string, nat) globals)"
      and r = "\<lparr>Body = ''x''\<rparr>" and err = "''invalid character''"
      and bytes = "''Invalid payload''" and werr = None
      and w_status = "?w1\<lparr>Code := 502, wroteHeader := True\<rparr>"
      and w_body = "\<lparr>Code = 502, HeaderMap = [(''Content-Type'', ''application/json'')],
                    Body_buffer = ''Invalid payload'', wroteHeader = True\<rparr>"]
  show ?thesis by simp
qed

section \<open>Claims about path parameters\<close>

lemma FindAll_static:
  "CHR ''{'' \<notin> set s \<Longrightarrow> pathParamPattern_FindAll (s @ rest) = pathParamPattern_FindAll rest"
  by (induction s) auto

lemma FindAll_static_only: "CHR ''{'' \<notin> set s \<Longrightarrow> pathParamPattern_FindAll s = []"
  by (induction s) auto

lemma FindAll_placeholder:
  assumes "name \<noteq> []" and "CHR ''}'' \<notin> set name"
  shows "pathParamPattern_FindAll (''{'' @ name @ ''}'' @ rest) = name # pathParamPattern_FindAll rest"
proof -
  have t: "takeWhile (\<lambda>x. x \<noteq> CHR ''}'') (name @ CHR ''}'' # rest) = name"
    using assms(2) by (induction name) auto
  have d: "dropWhile (\<lambda>x. x \<noteq> CHR ''}'') (name @ CHR ''}'' # rest) = CHR ''}'' # rest"
    using assms(2) by (induction name) auto
  show ?thesis using assms(1) by (simp add: t d)
qed

lemma FindAll_route_pattern:
  "plain_segments segs tail \<Longrightarrow> pathParamPattern_FindAll (route_pattern segs tail) = map snd segs"
proof (induction segs)
  case Nil
  then show ?case by (simp add: plain_segments_def FindAll_static_only)
next
  case (Cons seg segs)
  obtain static name where seg: "seg = (static, name)" by (cases seg)
  from Cons.prems have s: "CHR ''{'' \<notin> set static" and n: "name \<noteq> []" "CHR ''}'' \<notin> set name"
    and rest: "plain_segments segs tail"
    by (auto simp: plain_segments_def seg)
  have "pathParamPattern_FindAll (route_pattern (seg # segs) tail)
      = pathParamPattern_FindAll (''{'' @ name @ ''}'' @ route_pattern segs tail)"
    by (simp add: seg FindAll_static [OF s])
  also have "\<dots> = name # pathParamPattern_FindAll (route_pattern segs tail)"
    by (rule FindAll_placeholder [OF n])
  finally show ?case by (simp add: Cons.IH [OF rest] seg)
qed

lemma PathParam_inj: "PathParam m = PathParam n \<longleftrightarrow> m = n"
  by (simp add: PathParam_def)

lemma replace_param_PathParam:
  "\<forall>p \<in> set ps. In p = ''path'' \<longrightarrow> p = PathParam (pName p) \<Longrightarrow>
   replace_param (PathParam n) ps = (if PathParam n \<in> set ps then ps else ps @ [PathParam n])"
proof (induction ps)
  case Nil
  then show ?case by simp
next
  case (Cons p ps)
  show ?case
  proof (cases "pName p = n \<and> In p = ''path''")
    case True
    with Cons.prems have "p = PathParam n" by auto
    then show ?thesis by (simp add: PathParam_def)
  next
    case False
    then have "p \<noteq> PathParam n" by (auto simp: PathParam_def)
    with False Cons show ?thesis by (auto simp: PathParam_def)
  qed
qed

lemma first_occurrences_set: "set (first_occurrences xs) = set xs"
  by (induction xs) auto

lemma first_occurrences_distinct: "distinct (first_occurrences xs)"
  by (induction xs) auto

lemma first_occurrences_id: "distinct xs \<Longrightarrow> first_occurrences xs = xs"
  by (induction xs) (auto simp: first_occurrences_set filter_id_conv)

lemma add_params_foldl:
  "\<forall>p \<in> set (Parameters operation). In p = ''path'' \<longrightarrow> p = PathParam (pName p) \<Longrightarrow>
   Parameters (foldl (\<lambda>op pathParam. AddParam (PathParam pathParam) op) operation names)
     = Parameters operation
        @ map PathParam (filter (\<lambda>n. PathParam n \<notin> set (Parameters operation)) (first_occurrences names))"
proof (induction names arbitrary: operation)
  case Nil
  then show ?case by simp
next
  case (Cons n names)
  let ?ps = "Parameters operation"
  let ?op = "AddParam (PathParam n) operation"
  have step: "Parameters ?op = (if PathParam n \<in> set ?ps then ?ps else ?ps @ [PathParam n])"
    using Cons.prems by (simp add: AddParam_def replace_param_PathParam)
  then have inv: "\<forall>p \<in> set (Parameters ?op). In p = ''path'' \<longrightarrow> p = PathParam (pName p)"
    using Cons.prems by (auto simp: PathParam_def)
  show ?case
  proof (cases "PathParam n \<in> set ?ps")
    case True
    have "filter (\<lambda>m. PathParam m \<notin> set ?ps) (filter (\<lambda>y. y \<noteq> n) (first_occurrences names))
        = filter (\<lambda>m. PathParam m \<notin> set ?ps) (first_occurrences names)"
      using True by (auto intro: filter_cong)
    with True step Cons.IH [OF inv] show ?thesis by simp
  next
    case False
    have "filter (\<lambda>m. PathParam m \<notin> set (?ps @ [PathParam n])) (first_occurrences names)
        = filter (\<lambda>m. PathParam m \<notin> set ?ps) (filter (\<lambda>y. y \<noteq> n) (first_occurrences names))"
      by (auto simp: PathParam_inj intro: filter_cong)
    with False step Cons.IH [OF inv] show ?thesis by simp
  qed
qed

lemma add_path_params_body:
  assumes "\<forall>p \<in> set (Parameters operation). In p = ''body''"
  shows "Parameters (add_path_params route operation)
     = Parameters operation @ map PathParam (first_occurrences (pathParamPattern_FindAll route))"
proof -
  have a: "\<forall>p \<in> set (Parameters operation). In p = ''path'' \<longrightarrow> p = PathParam (pName p)"
    using assms by auto
  have b: "\<And>n. PathParam n \<notin> set (Parameters operation)"
    using assms by (auto simp: PathParam_def)
  show ?thesis
    unfolding add_path_params_def add_params_foldl [OF a] by (simp add: b)
qed

lemma slot_attach:
  "method \<in> set recognized_methods \<Longrightarrow> slot method (attach method operation pathItem) = Some operation"
  by (auto simp: recognized_methods_def slot_def attach_def)

lemma filter_path_body:
  "\<forall>p \<in> set ps. In p = ''body'' \<Longrightarrow>
   filter (\<lambda>p. In p = ''path'') (ps @ map PathParam names) = map PathParam names"
  by (induction ps) (auto simp: PathParam_def filter_id_conv)

text \<open>
  C5 (fails as stated). The claim: one path parameter per placeholder, in the order of
  the placeholders, each in \<open>path\<close>, required and of string type. \<open>AddParam\<close> replaces a
  parameter of the same name and location, so a name that occurs twice in the pattern
  (as in a sub-router mounted under \<^verbatim>\<open>/a/{id}\<close> with a route \<^verbatim>\<open>/b/{id}\<close>) gives one
  parameter; and \<open>PathParam\<close> sets no type.
\<close>

theorem walkFn_path_parameters_counterexample:
  "pathParamPattern_FindAll ''/a/{id}/b/{id}'' = [''id'', ''id'']
   \<and> initializeDoc [(''GET'', ''/a/{id}/b/{id}'', OtherHandler None None)] =
       ([], Inr \<lparr>Swagger = ''2.0'', Definitions = [],
                 Paths = [(''/a/{id}/b/{id}'',
                   empty_PathItem\<lparr>Get := Some
                     \<lparr>Parameters = [\<lparr>pName = ''id'', In = ''path'', Required = True,
                                      pSchema = None, pType = []\<rparr>],
                      Responses = []\<rparr>\<rparr>)]\<rparr>)
   \<and> pType (PathParam ''id'') \<noteq> ''string''"
  by (simp add: initializeDoc_def walkFn_def bind_logged_def add_body_param_def
      add_response_def has_key_def add_path_params_def attach_def NewOperation_def
      AddParam_def PathParam_def)

text \<open>
  C5, amended. For a method of the switch, the operation stored in the method's slot has
  as its path parameters exactly one per distinct placeholder content, in the order of
  first occurrence, each named by the content, in \<open>path\<close>, required, with no schema and
  no type. Where the contents are pairwise distinct that is one per placeholder, in
  order. For a pattern written as static text and placeholders, the contents found are
  the names, left to right.
\<close>

theorem walkFn_path_parameters:
  assumes "walkFn method route handler doc = (lg, Inr doc')"
    and "method \<in> set recognized_methods"
  shows "(\<exists>item operation.
            map_of (Paths doc') route = Some item \<and> slot method item = Some operation
          \<and> filter (\<lambda>p. In p = ''path'') (Parameters operation)
              = map (\<lambda>name. \<lparr>pName = name, In = ''path'', Required = True, pSchema = None,
                              pType = []\<rparr>)
                  (first_occurrences (pathParamPattern_FindAll route)))
     \<and> (distinct (pathParamPattern_FindAll route)
          \<longrightarrow> first_occurrences (pathParamPattern_FindAll route) = pathParamPattern_FindAll route)
     \<and> (plain_segments segs tail \<and> route = route_pattern segs tail
          \<longrightarrow> pathParamPattern_FindAll route = map snd segs)"
proof -
  from walkFn_operation [OF assms(1)] obtain op3 where
    body: "\<forall>p \<in> set (Parameters op3). In p = ''body''" and
    paths: "Paths doc' =
           AList.update route
             (attach method (add_path_params route op3)
                (case map_of (Paths doc) route of None \<Rightarrow> empty_PathItem | Some i \<Rightarrow> i))
             (ensure_path route (Paths doc))"
    by blast
  let ?op = "add_path_params route op3"
  let ?item = "attach method ?op
                (case map_of (Paths doc) route of None \<Rightarrow> empty_PathItem | Some i \<Rightarrow> i)"
  have 1: "map_of (Paths doc') route = Some ?item"
    by (simp add: paths AList.update_conv')
  have 2: "slot method ?item = Some ?op"
    using assms(2) by (rule slot_attach)
  have 3: "filter (\<lambda>p. In p = ''path'') (Parameters ?op)
              = map PathParam (first_occurrences (pathParamPattern_FindAll route))"
    unfolding add_path_params_body [OF body] by (rule filter_path_body [OF body])
  have 4: "PathParam = (\<lambda>name. \<lparr>pName = name, In = ''path'', Required = True, pSchema = None,
                              pType = []\<rparr>)"
    by (simp add: fun_eq_iff PathParam_def)
  from 1 2 3 have "\<exists>item operation.
            map_of (Paths doc') route = Some item \<and> slot method item = Some operation
          \<and> filter (\<lambda>p. In p = ''path'') (Parameters operation)
              = map (\<lambda>name. \<lparr>pName = name, In = ''path'', Required = True, pSchema = None,
                              pType = []\<rparr>)
                  (first_occurrences (pathParamPattern_FindAll route))"
    unfolding 4 by blast
  then show ?thesis
    by (simp add: first_occurrences_id FindAll_route_pattern)
qed

theorem walkFn_path_parameters_witness:
  "walkFn ''GET'' ''/users/{id}/posts/{postId}'' (OtherHandler None None)
      \<lparr>Swagger = ''2.0'', Definitions = [], Paths = []\<rparr>
     = ([], Inr \<lparr>Swagger = ''2.0'', Definitions = [],
                 Paths = [(''/users/{id}/posts/{postId}'',
                   empty_PathItem\<lparr>Get := Some
                     \<lparr>Parameters = [PathParam ''id'', PathParam ''postId''],
                      Responses = []\<rparr>\<rparr>)]\<rparr>)
   \<and> ''GET'' \<in> set recognized_methods
   \<and> distinct (pathParamPattern_FindAll ''/users/{id}/posts/{postId}'')
   \<and> ''/users/{id}/posts/{postId}'' = route_pattern [(''/users/'', ''id''), (''/posts/'', ''postId'')] []
   \<and> first_occurrences (pathParamPattern_FindAll ''/users/{id}/posts/{postId}'')
       = pathParamPattern_FindAll ''/users/{id}/posts/{postId}''
   \<and> pathParamPattern_FindAll ''/users/{id}/posts/{postId}'' = [''id'', ''postId'']"
proof -
  have run: "walkFn ''GET'' ''/users/{id}/posts/{postId}'' (OtherHandler None None)
      \<lparr>Swagger = ''2.0'', Definitions = [], Paths = []\<rparr>
     = ([], Inr \<lparr>Swagger = ''2.0'', Definitions = [],
                 Paths = [(''/users/{id}/posts/{postId}'',
                   empty_PathItem\<lparr>Get := Some
                     \<lparr>Parameters = [PathParam ''id'', PathParam ''postId''],
                      Responses = []\<rparr>\<rparr>)]\<rparr>)"
    by (simp add: walkFn_def bind_logged_def add_body_param_def add_response_def has_key_def
        add_path_params_def attach_def NewOperation_def AddParam_def PathParam_def)
  have m: "''GET'' \<in> set recognized_methods"
    by (simp add: recognized_methods_def)
  have segs: "plain_segments [(''/users/'', ''id''), (''/posts/'', ''postId'')] []"
    by (simp add: plain_segments_def)
  have pat: "''/users/{id}/posts/{postId}''
      = route_pattern [(''/users/'', ''id''), (''/posts/'', ''postId'')] []"
    by simp
  have d: "distinct (pathParamPattern_FindAll ''/users/{id}/posts/{postId}'')"
    by simp
  note w = walkFn_path_parameters [OF run m,
      of "[(''/users/'', ''id''), (''/posts/'', ''postId'')]" "[]"]
  from w d have fo: "first_occurrences (pathParamPattern_FindAll ''/users/{id}/posts/{postId}'')
       = pathParamPattern_FindAll ''/users/{id}/posts/{postId}''"
    by blast
  from w segs pat have "pathParamPattern_FindAll ''/users/{id}/posts/{postId}''
      = map snd [(''/users/'', ''id''), (''/posts/'', ''postId'')]"
    by blast
  then have names: "pathParamPattern_FindAll ''/users/{id}/posts/{postId}'' = [''id'', ''postId'']"
    by (simp only: list.map snd_conv)
  from run m d pat fo names show ?thesis by blast
qed

section \<open>Claims about struct schemas\<close>

lemma getProperty_fields_update_all:
  "getProperty_fields fs props = (lg, Inr props') \<Longrightarrow>
   props' = update_all (field_properties fs) props"
proof (induction fs arbitrary: props lg)
  case Nil
  then show ?case by (simp add: update_all_def)
next
  case (Cons f fs)
  obtain nm tag ty where f: "f = StructField nm tag ty" by (cases f)
  obtain lg1 r1 where g: "getProperty ty = (lg1, r1)" by (cases "getProperty ty")
  show ?case
  proof (cases r1)
    case (Inl p)
    with Cons.prems f g show ?thesis by simp
  next
    case (Inr property)
    let ?props = "case property of None \<Rightarrow> props | Some p \<Rightarrow> AList.update (Split_comma_0 tag) p props"
    from Cons.prems f g Inr obtain lg2 where
      rest: "getProperty_fields fs ?props = (lg2, Inr props')"
      by (auto split: prod.splits)
    from Cons.IH [OF rest] f g Inr show ?thesis
      by (cases property) (simp_all add: update_all_def)
  qed
qed

lemma map_of_update_all:
  "map_of (update_all kvs al) = map_of al ++ map_of (rev kvs)"
proof (induction kvs arbitrary: al)
  case Nil
  then show ?case by (simp add: update_all_def)
next
  case (Cons kv kvs)
  have "update_all (kv # kvs) al = update_all kvs (AList.update (fst kv) (snd kv) al)"
    by (simp add: update_all_def)
  then show ?case
    by (cases kv) (auto simp: Cons.IH AList.update_conv' fun_eq_iff map_add_def split: option.splits)
qed

lemma distinct_update_all:
  "distinct (map fst al) \<Longrightarrow> distinct (map fst (update_all kvs al))"
proof (induction kvs arbitrary: al)
  case Nil
  then show ?case by (simp add: update_all_def)
next
  case (Cons kv kvs)
  have "update_all (kv # kvs) al = update_all kvs (AList.update (fst kv) (snd kv) al)"
    by (simp add: update_all_def)
  with Cons show ?case by (simp add: AList.distinct_update)
qed

lemma update_all_distinct:
  "distinct (map fst (al @ kvs)) \<Longrightarrow> update_all kvs al = al @ kvs"
proof (induction kvs arbitrary: al)
  case Nil
  then show ?case by (simp add: update_all_def)
next
  case (Cons kv kvs)
  have u: "update_all (kv # kvs) al = update_all kvs (AList.update (fst kv) (snd kv) al)"
    by (simp add: update_all_def)
  from Cons.prems have "map_of al (fst kv) = None"
    by (auto simp: map_of_eq_None_iff)
  then have a: "AList.update (fst kv) (snd kv) al = al @ [kv]"
    by (simp add: update_absent)
  from Cons.prems have "distinct (map fst ((al @ [kv]) @ kvs))" by simp
  from Cons.IH [OF this] u a show ?case by simp
qed

lemma keys_update_all:
  "fst ` set (update_all kvs al) = fst ` set al \<union> fst ` set kvs"
proof -
  have "dom (map_of (update_all kvs al)) = dom (map_of al ++ map_of (rev kvs))"
    by (simp only: map_of_update_all)
  then show ?thesis by (auto simp: dom_map_of_conv_image_fst)
qed

text \<open>
  C4 (fails as stated). The claim: exactly one property per field whose type has a
  schema, keyed by the first token of the json tag, an empty tag giving the empty key.
  The properties are a map: two untagged fields both have the empty key, and the second
  assignment overwrites the first. Two supported fields give one property.
\<close>

theorem getProperty_struct_properties_counterexample:
  "getProperty (RType ''T'' ''main.T'' (Struct
      [StructField ''A'' [] (RType ''int'' ''int'' Int_kind),
       StructField ''B'' [] (RType ''string'' ''string'' String_kind)]))
     = ([], Inr (Some (Schema [] [] None [([], Schema [''string''] [] None [] False [])] False [])))
   \<and> field_properties
      [StructField ''A'' [] (RType ''int'' ''int'' Int_kind),
       StructField ''B'' [] (RType ''string'' ''string'' String_kind)]
     = [([], Schema [''integer''] ''int64'' None [] False []),
        ([], Schema [''string''] [] None [] False [])]"
  by (simp add: Split_comma_0_def Int64Property_def StringProperty_def)

text \<open>
  C4, amended. When \<open>getProperty\<close> returns for a struct type (one that is not named
  \<^verbatim>\<open>uuid.UUID\<close> or \<^verbatim>\<open>date.DateString\<close>), it returns an object schema whose property
  keys are exactly the first tokens of the json tags of the fields whose type has a
  schema; a key maps to the schema of the last such field that has it; fields without
  schema contribute nothing. When these keys are pairwise distinct the properties are,
  one for one, those fields.
\<close>

theorem getProperty_struct_properties:
  assumes "s \<noteq> ''uuid.UUID''" and "s \<noteq> ''date.DateString''"
    and "getProperty (RType n s (Struct fs)) = (lg, Inr r)"
  shows "\<exists>props. r = Some (Schema [] [] None props False [])
      \<and> distinct (map fst props)
      \<and> fst ` set props = fst ` set (field_properties fs)
      \<and> map_of props = map_of (rev (field_properties fs))
      \<and> (distinct (map fst (field_properties fs)) \<longrightarrow> props = field_properties fs)"
proof -
  from assms obtain props where
    r: "r = Some (Schema [] [] None props False [])" and
    loop: "getProperty_fields fs [] = (lg, Inr props)"
    by (auto split: prod.splits sum.splits)
  have p: "props = update_all (field_properties fs) []"
    using loop by (rule getProperty_fields_update_all)
  have 1: "distinct (map fst props)"
    unfolding p by (rule distinct_update_all) simp
  have 2: "fst ` set props = fst ` set (field_properties fs)"
    unfolding p by (simp add: keys_update_all)
  have 3: "map_of props = map_of (rev (field_properties fs))"
    unfolding p by (simp add: map_of_update_all)
  have 4: "props = field_properties fs" if "distinct (map fst (field_properties fs))"
    unfolding p using update_all_distinct [of "[]" "field_properties fs"] that by simp
  from r 1 2 3 4 show ?thesis by blast
qed

theorem getProperty_struct_properties_witness:
  "''main.Widget'' \<noteq> ''uuid.UUID'' \<and> ''main.Widget'' \<noteq> ''date.DateString''
   \<and> getProperty (RType ''Widget'' ''main.Widget'' (Struct
        [StructField ''ID'' ''id'' (RType ''string'' ''string'' String_kind),
         StructField ''Extra'' ''extra'' (RType [] ''map[string]int'' Map),
         StructField ''Count'' ''count,omitempty'' (RType ''int'' ''int'' Int_kind)]))
     = ([''Unknown kind for swagger property:  map''],
        Inr (Some (Schema [] [] None
          [(''id'', Schema [''string''] [] None [] False []),
           (''count'', Schema [''integer''] ''int64'' None [] False [])] False [])))
   \<and> field_properties
        [StructField ''ID'' ''id'' (RType ''string'' ''string'' String_kind),
         StructField ''Extra'' ''extra'' (RType [] ''map[string]int'' Map),
         StructField ''Count'' ''count,omitempty'' (RType ''int'' ''int'' Int_kind)]
     = [(''id'', Schema [''string''] [] None [] False []),
        (''count'', Schema [''integer''] ''int64'' None [] False [])]"
proof -
  have a: "''main.Widget'' \<noteq> ''uuid.UUID''" and b: "''main.Widget'' \<noteq> ''date.DateString''"
    by simp_all
  have run: "getProperty (RType ''Widget'' ''main.Widget'' (Struct
        [StructField ''ID'' ''id'' (RType ''string'' ''string'' String_kind),
         StructField ''Extra'' ''extra'' (RType [] ''map[string]int'' Map),
         StructField ''Count'' ''count,omitempty'' (RType ''int'' ''int'' Int_kind)]))
     = ([''Unknown kind for swagger property:  map''],
        Inr (Some (Schema [] [] None
          [(''id'', Schema [''string''] [] None [] False []),
           (''count'', Schema [''integer''] ''int64'' None [] False [])] False [])))"
    by (simp add: Split_comma_0_def Int64Property_def StringProperty_def ReplaceAll_slash_dot_def)
  have fp: "field_properties
        [StructField ''ID'' ''id'' (RType ''string'' ''string'' String_kind),
         StructField ''Extra'' ''extra'' (RType [] ''map[string]int'' Map),
         StructField ''Count'' ''count,omitempty'' (RType ''int'' ''int'' Int_kind)]
     = [(''id'', Schema [''string''] [] None [] False []),
        (''count'', Schema [''integer''] ''int64'' None [] False [])]"
    by (simp add: Split_comma_0_def Int64Property_def StringProperty_def)
  from getProperty_struct_properties [OF a b run] a b run fp show ?thesis by blast
qed

section \<open>Claims about the definitions table\<close>

lemma set_update_cases:
  "x \<in> set (AList.update k v al) \<Longrightarrow> x = (k, v) \<or> x \<in> set al"
  by (induction al) (auto split: if_splits)

lemma getProperty_no_refs:
  "getProperty t = (lg, Inr (Some sch)) \<Longrightarrow> refs_of sch = []"
  "getProperty_fields fs props = (lg', Inr props') \<Longrightarrow>
     \<forall>kp \<in> set props. refs_of (snd kp) = [] \<Longrightarrow> \<forall>kp \<in> set props'. refs_of (snd kp) = []"
proof (induction t and fs props arbitrary: lg sch and lg' props'
    rule: getProperty_getProperty_fields.induct)
  case (1 n s k)
  show ?case
  proof (cases "s = ''uuid.UUID'' \<or> s = ''date.DateString''")
    case True
    with "1.prems" show ?thesis
      by (auto simp: StrFmtProperty_def DateProperty_def)
  next
    case False
    then have s: "s \<noteq> ''uuid.UUID''" "s \<noteq> ''date.DateString''" by simp_all
    show ?thesis
    proof (cases k)
      case (Array e)
      obtain lg1 r1 where g: "getProperty e = (lg1, r1)" by (cases "getProperty e")
      from "1.prems" s Array g obtain items where
        r1: "r1 = Inr items" and sch: "sch = ArrayProperty items"
        by (cases r1) auto
      from "1.IH"(1) [OF s Array] g r1 have "items = Some i \<Longrightarrow> refs_of i = []" for i
        by simp
      then show ?thesis by (cases items) (simp_all add: sch ArrayProperty_def)
    next
      case (Slice e)
      obtain lg1 r1 where g: "getProperty e = (lg1, r1)" by (cases "getProperty e")
      from "1.prems" s Slice g obtain items where
        r1: "r1 = Inr items" and sch: "sch = ArrayProperty items"
        by (cases r1) auto
      from "1.IH"(3) [OF s Slice] g r1 have "items = Some i \<Longrightarrow> refs_of i = []" for i
        by simp
      then show ?thesis by (cases items) (simp_all add: sch ArrayProperty_def)
    next
      case (Pointer e)
      obtain lg1 r1 where g: "getProperty e = (lg1, r1)" by (cases "getProperty e")
      from "1.prems" s Pointer g obtain property where
        r1: "r1 = Inr (Some property)" and sch: "sch = set_Nullable True property"
        by (cases r1) (auto split: option.splits)
      from "1.IH"(2) [OF s Pointer] g r1 have "refs_of property = []" by simp
      then show ?thesis by (cases property) (simp add: sch set_Nullable_def)
    next
      case (Struct fs)
      obtain lg1 r1 where g: "getProperty_fields fs [] = (lg1, r1)"
        by (cases "getProperty_fields fs []")
      from "1.prems" s Struct g obtain props where
        r1: "r1 = Inr props" and sch: "sch = Schema [] [] None props False []"
        by (cases r1) auto
      from "1.IH"(4) [OF s Struct] g r1 have "\<forall>kp \<in> set props. refs_of (snd kp) = []"
        by simp
      then show ?thesis by (simp add: sch)
    qed (use "1.prems" s in \<open>auto simp: BooleanProperty_def Int8Property_def Int16Property_def
        Int32Property_def Int64Property_def Float32Property_def Float64Property_def
        StringProperty_def\<close>)
  qed
next
  case (2 props)
  then show ?case by simp
next
  case (3 nm tag ty fs props)
  obtain lg1 r1 where g: "getProperty ty = (lg1, r1)" by (cases "getProperty ty")
  from "3.prems"(1) g obtain property where r1: "r1 = Inr property"
    by (cases r1) auto
  let ?props = "case property of None \<Rightarrow> props | Some p \<Rightarrow> AList.update (Split_comma_0 tag) p props"
  from "3.prems"(1) g r1 obtain lg2 where
    rest: "getProperty_fields fs ?props = (lg2, Inr props')"
    by (auto split: prod.splits)
  have "\<forall>kp \<in> set ?props. refs_of (snd kp) = []"
  proof (cases property)
    case None
    with "3.prems"(2) show ?thesis by simp
  next
    case (Some p)
    from "3.IH"(1) g r1 Some have "refs_of p = []" by simp
    with "3.prems"(2) Some show ?thesis
      by (auto dest: set_update_cases)
  qed
  from "3.IH"(2) [OF g [symmetric] r1 rest this] show ?case .
qed

lemma walkFn_Inr:
  assumes "walkFn m r h doc = (lg, Inr doc')"
  obtains lg1 doc2 op2 lg2 doc3 op3 where
    "add_body_param h
       (if has_key (Paths doc) r then doc
        else doc\<lparr>Paths := AList.update r empty_PathItem (Paths doc)\<rparr>, NewOperation)
      = (lg1, Inr (doc2, op2))"
    and "add_response h (doc2, op2) = (lg2, Inr (doc3, op3))"
    and "doc' = doc3\<lparr>Paths := AList.update r
           (attach m (add_path_params r op3)
              (case map_of (Paths doc3) r of None \<Rightarrow> empty_PathItem | Some i \<Rightarrow> i))
           (Paths doc3)\<rparr>"
  using assms unfolding walkFn_def Let_def by (auto simp: bind_logged_Inr)

lemma addDefinition_inv:
  assumes "addDefinition d t = (lg, Inr d')"
    and "distinct (map fst (Definitions d))"
    and "\<forall>kp \<in> set (Definitions d). refs_of (snd kp) = []"
  shows "distinct (map fst (Definitions d')) \<and> (\<forall>kp \<in> set (Definitions d'). refs_of (snd kp) = [])"
proof (cases "has_key (Definitions d) (getName t)")
  case True
  with assms show ?thesis by (simp add: addDefinition_def)
next
  case False
  obtain lg1 r1 where g: "getProperty t = (lg1, r1)" by (cases "getProperty t")
  from assms(1) False g obtain res where r1: "r1 = Inr res"
    by (cases r1) (auto simp: addDefinition_def)
  show ?thesis
  proof (cases res)
    case None
    with assms False g r1 show ?thesis by (simp add: addDefinition_def)
  next
    case (Some p)
    from getProperty_no_refs(1) g r1 Some have "refs_of p = []" by simp
    moreover from assms(1) False g r1 Some
    have "Definitions d' = AList.update (getName t) p (Definitions d)"
      by (auto simp: addDefinition_def)
    ultimately show ?thesis
      using assms(2,3) by (auto simp: AList.distinct_update dest: set_update_cases)
  qed
qed

lemma add_body_param_inv:
  assumes "add_body_param h (d, op) = (lg, Inr (d', op'))"
    and "distinct (map fst (Definitions d)) \<and> (\<forall>kp \<in> set (Definitions d). refs_of (snd kp) = [])"
  shows "distinct (map fst (Definitions d')) \<and> (\<forall>kp \<in> set (Definitions d'). refs_of (snd kp) = [])"
proof (cases "as_PayloadTyper h")
  case None
  with assms show ?thesis by (simp add: add_body_param_def)
next
  case (Some pt)
  with assms(1) obtain t lg1 where "pt = Some t" and "addDefinition d t = (lg1, Inr d')"
    by (cases pt) (auto simp: add_body_param_def bind_logged_Inr)
  with assms(2) addDefinition_inv show ?thesis by blast
qed

lemma add_response_inv:
  assumes "add_response h (d, op) = (lg, Inr (d', op'))"
    and "distinct (map fst (Definitions d)) \<and> (\<forall>kp \<in> set (Definitions d). refs_of (snd kp) = [])"
  shows "distinct (map fst (Definitions d')) \<and> (\<forall>kp \<in> set (Definitions d'). refs_of (snd kp) = [])"
proof (cases "as_ResponseTyper h")
  case None
  with assms show ?thesis by (simp add: add_response_def)
next
  case (Some rt)
  with assms(1) obtain t lg1 where "rt = Some t" and "addDefinition d t = (lg1, Inr d')"
    by (cases rt) (auto simp: add_response_def bind_logged_Inr)
  with assms(2) addDefinition_inv show ?thesis by blast
qed

lemma walkFn_inv:
  assumes "walkFn m r h d = (lg, Inr d')"
    and "distinct (map fst (Definitions d)) \<and> (\<forall>kp \<in> set (Definitions d). refs_of (snd kp) = [])"
  shows "distinct (map fst (Definitions d')) \<and> (\<forall>kp \<in> set (Definitions d'). refs_of (snd kp) = [])"
proof -
  let ?d1 = "if has_key (Paths d) r then d
        else d\<lparr>Paths := AList.update r empty_PathItem (Paths d)\<rparr>"
  from assms(1) obtain lg1 doc2 op2 lg2 doc3 op3 where
    a: "add_body_param h (?d1, NewOperation) = (lg1, Inr (doc2, op2))" and
    b: "add_response h (doc2, op2) = (lg2, Inr (doc3, op3))" and
    c: "doc' = doc3\<lparr>Paths := AList.update r
           (attach m (add_path_params r op3)
              (case map_of (Paths doc3) r of None \<Rightarrow> empty_PathItem | Some i \<Rightarrow> i))
           (Paths doc3)\<rparr>" if "doc' = d'" for doc'
    by (rule walkFn_Inr) auto
  have "Definitions ?d1 = Definitions d" by simp
  with assms(2) have "distinct (map fst (Definitions ?d1))
      \<and> (\<forall>kp \<in> set (Definitions ?d1). refs_of (snd kp) = [])" by simp
  from add_response_inv [OF b add_body_param_inv [OF a this]] c [OF refl]
  show ?thesis by simp
qed

lemma Walk_inv:
  "Walk rs d = (lg, Inr d') \<Longrightarrow>
   distinct (map fst (Definitions d)) \<and> (\<forall>kp \<in> set (Definitions d). refs_of (snd kp) = []) \<Longrightarrow>
   distinct (map fst (Definitions d')) \<and> (\<forall>kp \<in> set (Definitions d'). refs_of (snd kp) = [])"
proof (induction rs arbitrary: d lg)
  case Nil
  then show ?case by simp
next
  case (Cons e rs)
  obtain m r h where e: "e = (m, r, h)" by (cases e)
  from Cons.prems(1) obtain lg1 d1 lg2 where
    s: "walkFn m r h d = (lg1, Inr d1)" and w: "Walk rs d1 = (lg2, Inr d')"
    by (auto simp: e bind_logged_Inr)
  from Cons.IH [OF w walkFn_inv [OF s Cons.prems(2)]] show ?case .
qed

text \<open>
  C3 (fails as stated). The claim: at most one entry per type name, and a named type that
  is referenced repeatedly, also as a nested struct field of several registered types,
  is not expanded again but resolved through the table. Only \<open>addDefinition\<close> looks at
  the table, for the payload or response type of a route; \<open>getProperty\<close> never does and
  never produces a reference. With \<open>Inner\<close> a field of both \<open>A\<close> and \<open>B\<close>, the table
  gets \<open>A\<close> and \<open>B\<close>, each with the schema of \<open>Inner\<close> written out in it, and no entry
  for \<open>Inner\<close>.
\<close>

theorem definitions_table_counterexample:
  "map_sum id Definitions
     (snd (initializeDoc [(''GET'', ''/a'', NewJSONHandler example_A),
                          (''GET'', ''/b'', NewJSONHandler example_B)]))
     = Inr [(''A'', Schema [] [] None [(''inner'', example_Inner_schema)] False []),
            (''B'', Schema [] [] None [(''inner'', example_Inner_schema)] False [])]
   \<and> getProperty example_Inner = ([], Inr (Some example_Inner_schema))
   \<and> Ref example_Inner_schema = []
   \<and> getName example_Inner = ''Inner''
   \<and> map_of [(''A'', Schema [] [] None [(''inner'', example_Inner_schema)] False []),
            (''B'', Schema [] [] None [(''inner'', example_Inner_schema)] False [])] ''Inner'' = None"
  by (simp add: initializeDoc_def walkFn_def bind_logged_def add_body_param_def
      add_response_def has_key_def add_path_params_def attach_def NewJSONHandler_def
      TypeOf_zero_def addDefinition_def ReplaceAll_slash_dot_def Split_comma_0_def
      example_A_def example_B_def example_Inner_def example_Inner_schema_def Int64Property_def)

lemma addDefinition_entries:
  assumes "addDefinition d t = (lg, Inr d')"
  shows "(\<forall>kp \<in> set (Definitions d'). kp \<in> set (Definitions d)
            \<or> fst kp = getName t \<and> snd (getProperty t) = Inr (Some (snd kp)))
    \<and> (\<forall>k. has_key (Definitions d) k \<longrightarrow> has_key (Definitions d') k)
    \<and> (has_key (Definitions d') (getName t) \<or> snd (getProperty t) = Inr None)"
proof (cases "has_key (Definitions d) (getName t)")
  case True
  with assms show ?thesis by (simp add: addDefinition_def)
next
  case False
  obtain lg1 r1 where g: "getProperty t = (lg1, r1)" by (cases "getProperty t")
  from assms False g obtain res where r1: "r1 = Inr res"
    by (cases r1) (auto simp: addDefinition_def)
  show ?thesis
  proof (cases res)
    case None
    with assms False g r1 show ?thesis by (simp add: addDefinition_def)
  next
    case (Some p)
    from assms False g r1 Some
    have d': "Definitions d' = AList.update (getName t) p (Definitions d)"
      by (auto simp: addDefinition_def)
    show ?thesis
      unfolding d' using g r1 Some
      by (auto simp: has_key_def AList.update_conv' dest: set_update_cases)
  qed
qed

lemma add_body_param_entries:
  assumes "add_body_param h (d, op) = (lg, Inr (d', op'))"
  shows "(\<forall>kp \<in> set (Definitions d'). kp \<in> set (Definitions d)
            \<or> (\<exists>t. as_PayloadTyper h = Some (Some t)
                  \<and> fst kp = getName t \<and> snd (getProperty t) = Inr (Some (snd kp))))
    \<and> (\<forall>k. has_key (Definitions d) k \<longrightarrow> has_key (Definitions d') k)
    \<and> (\<forall>t. as_PayloadTyper h = Some (Some t)
          \<longrightarrow> has_key (Definitions d') (getName t) \<or> snd (getProperty t) = Inr None)"
proof (cases "as_PayloadTyper h")
  case None
  with assms show ?thesis by (simp add: add_body_param_def)
next
  case (Some pt)
  with assms obtain t lg1 where pt: "pt = Some t" and a: "addDefinition d t = (lg1, Inr d')"
    by (cases pt) (auto simp: add_body_param_def bind_logged_Inr)
  from addDefinition_entries [OF a] Some pt show ?thesis by auto
qed

lemma add_response_entries:
  assumes "add_response h (d, op) = (lg, Inr (d', op'))"
  shows "(\<forall>kp \<in> set (Definitions d'). kp \<in> set (Definitions d)
            \<or> (\<exists>t. as_ResponseTyper h = Some (Some t)
                  \<and> fst kp = getName t \<and> snd (getProperty t) = Inr (Some (snd kp))))
    \<and> (\<forall>k. has_key (Definitions d) k \<longrightarrow> has_key (Definitions d') k)
    \<and> (\<forall>t. as_ResponseTyper h = Some (Some t)
          \<longrightarrow> has_key (Definitions d') (getName t) \<or> snd (getProperty t) = Inr None)"
proof (cases "as_ResponseTyper h")
  case None
  with assms show ?thesis by (simp add: add_response_def)
next
  case (Some rt)
  with assms obtain t lg1 where rt: "rt = Some t" and a: "addDefinition d t = (lg1, Inr d')"
    by (cases rt) (auto simp: add_response_def bind_logged_Inr)
  from addDefinition_entries [OF a] Some rt show ?thesis by auto
qed

lemma handler_types_iff:
  "t \<in> set (handler_types h) \<longleftrightarrow> as_PayloadTyper h = Some (Some t) \<or> as_ResponseTyper h = Some (Some t)"
  by (auto simp: handler_types_def split: option.splits)

lemma walkFn_entries:
  assumes "walkFn m r h d = (lg, Inr d')"
  shows "(\<forall>kp \<in> set (Definitions d'). kp \<in> set (Definitions d)
            \<or> (\<exists>t \<in> set (handler_types h).
                  fst kp = getName t \<and> snd (getProperty t) = Inr (Some (snd kp))))
    \<and> (\<forall>k. has_key (Definitions d) k \<longrightarrow> has_key (Definitions d') k)
    \<and> (\<forall>t \<in> set (handler_types h).
          has_key (Definitions d') (getName t) \<or> snd (getProperty t) = Inr None)"
proof -
  let ?d1 = "if has_key (Paths d) r then d
        else d\<lparr>Paths := AList.update r empty_PathItem (Paths d)\<rparr>"
  from assms obtain lg1 doc2 op2 lg2 doc3 op3 where
    a: "add_body_param h (?d1, NewOperation) = (lg1, Inr (doc2, op2))" and
    b: "add_response h (doc2, op2) = (lg2, Inr (doc3, op3))" and
    c: "Definitions d' = Definitions doc3"
    by (rule walkFn_Inr) auto
  have e: "Definitions ?d1 = Definitions d" by simp
  note A = add_body_param_entries [OF a, unfolded e]
  note B = add_response_entries [OF b]
  have pt: "t \<in> set (handler_types h)" if "as_PayloadTyper h = Some (Some t)" for t
    using that by (simp add: handler_types_iff)
  have rt: "t \<in> set (handler_types h)" if "as_ResponseTyper h = Some (Some t)" for t
    using that by (simp add: handler_types_iff)
  have ht: "as_PayloadTyper h = Some (Some t) \<or> as_ResponseTyper h = Some (Some t)"
    if "t \<in> set (handler_types h)" for t
    using that by (simp add: handler_types_iff)
  have 1: "\<forall>kp \<in> set (Definitions d'). kp \<in> set (Definitions d)
            \<or> (\<exists>t \<in> set (handler_types h).
                  fst kp = getName t \<and> snd (getProperty t) = Inr (Some (snd kp)))"
    unfolding c using A B pt rt ht by blast
  have 2: "\<forall>k. has_key (Definitions d) k \<longrightarrow> has_key (Definitions d') k"
    unfolding c using A B by blast
  have 3: "\<forall>t \<in> set (handler_types h).
          has_key (Definitions d') (getName t) \<or> snd (getProperty t) = Inr None"
    unfolding c using A B pt rt ht by blast
  from 1 2 3 show ?thesis by blast
qed

lemma Walk_entries:
  "Walk rs d = (lg, Inr d') \<Longrightarrow>
   (\<forall>kp \<in> set (Definitions d'). kp \<in> set (Definitions d)
            \<or> (\<exists>t \<in> set (registered_types rs).
                  fst kp = getName t \<and> snd (getProperty t) = Inr (Some (snd kp))))
    \<and> (\<forall>k. has_key (Definitions d) k \<longrightarrow> has_key (Definitions d') k)
    \<and> (\<forall>t \<in> set (registered_types rs).
          has_key (Definitions d') (getName t) \<or> snd (getProperty t) = Inr None)"
proof (induction rs arbitrary: d lg)
  case Nil
  then show ?case by (simp add: registered_types_def)
next
  case (Cons e rs)
  obtain m r h where e: "e = (m, r, h)" by (cases e)
  from Cons.prems obtain lg1 d1 lg2 where
    s: "walkFn m r h d = (lg1, Inr d1)" and w: "Walk rs d1 = (lg2, Inr d')"
    by (auto simp: e bind_logged_Inr)
  have reg: "set (registered_types (e # rs)) = set (handler_types h) \<union> set (registered_types rs)"
    by (simp add: registered_types_def e)
  note S = walkFn_entries [OF s]
  note W = Cons.IH [OF w]
  have 1: "\<forall>kp \<in> set (Definitions d'). kp \<in> set (Definitions d)
            \<or> (\<exists>t \<in> set (registered_types (e # rs)).
                  fst kp = getName t \<and> snd (getProperty t) = Inr (Some (snd kp)))"
    unfolding reg using S W by blast
  have 2: "\<forall>k. has_key (Definitions d) k \<longrightarrow> has_key (Definitions d') k"
    using S W by blast
  have 3: "\<forall>t \<in> set (registered_types (e # rs)).
          has_key (Definitions d') (getName t) \<or> snd (getProperty t) = Inr None"
    unfolding reg using S W by blast
  from 1 2 3 show ?case by blast
qed

text \<open>
  C3, amended. In every document that the build returns, the definitions table has at
  most one entry per name; every entry is keyed by the name of a payload or response
  type of a walked route and holds the schema that \<open>getProperty\<close> builds for a type of
  that name among them, and every such type that has a schema has its name in the
  table; no entry contains a reference. A payload or response type whose name is
  already in the table is not built again, and the table is left as it is. No schema
  that \<open>getProperty\<close> returns contains a reference: the type of a struct field is
  written out in place, and it is in the table only if it is itself the payload or
  response type of a route.
\<close>

theorem definitions_table:
  "(initializeDoc routes = (lg, Inr doc) \<longrightarrow>
      distinct (map fst (Definitions doc))
      \<and> (\<forall>kp \<in> set (Definitions doc). \<exists>t \<in> set (registered_types routes).
            fst kp = getName t \<and> snd (getProperty t) = Inr (Some (snd kp)))
      \<and> (\<forall>t \<in> set (registered_types routes).
            has_key (Definitions doc) (getName t) \<or> snd (getProperty t) = Inr None)
      \<and> (\<forall>kp \<in> set (Definitions doc). refs_of (snd kp) = []))
   \<and> (has_key (Definitions d) (getName t) \<longrightarrow> addDefinition d t = ([], Inr d))
   \<and> (getProperty t = (lg', Inr (Some sch)) \<longrightarrow> refs_of sch = [])"
proof -
  have "distinct (map fst (Definitions doc))
      \<and> (\<forall>kp \<in> set (Definitions doc). \<exists>t \<in> set (registered_types routes).
            fst kp = getName t \<and> snd (getProperty t) = Inr (Some (snd kp)))
      \<and> (\<forall>t \<in> set (registered_types routes).
            has_key (Definitions doc) (getName t) \<or> snd (getProperty t) = Inr None)
      \<and> (\<forall>kp \<in> set (Definitions doc). refs_of (snd kp) = [])"
    if run: "initializeDoc routes = (lg, Inr doc)"
  proof -
    from run have w: "Walk routes \<lparr>Swagger = ''2.0'', Definitions = [], Paths = []\<rparr> = (lg, Inr doc)"
      by (simp add: initializeDoc_def)
    from Walk_inv [OF w] have a: "distinct (map fst (Definitions doc))
        \<and> (\<forall>kp \<in> set (Definitions doc). refs_of (snd kp) = [])"
      by simp
    from Walk_entries [OF w] have b:
      "(\<forall>kp \<in> set (Definitions doc). \<exists>t \<in> set (registered_types routes).
            fst kp = getName t \<and> snd (getProperty t) = Inr (Some (snd kp)))
       \<and> (\<forall>t \<in> set (registered_types routes).
            has_key (Definitions doc) (getName t) \<or> snd (getProperty t) = Inr None)"
      by simp
    from a b show ?thesis by blast
  qed
  moreover have "addDefinition d t = ([], Inr d)" if "has_key (Definitions d) (getName t)"
    using that by (simp add: addDefinition_def)
  moreover have "refs_of sch = []" if "getProperty t = (lg', Inr (Some sch))"
    using that by (rule getProperty_no_refs(1))
  ultimately show ?thesis by blast
qed

theorem definitions_table_witness:
  "initializeDoc [(''GET'', ''/a'', NewJSONHandler example_A),
                  (''POST'', ''/a'', NewJSONHandler example_A)] = ([], Inr example_doc)
   \<and> distinct (map fst (Definitions example_doc))
   \<and> has_key (Definitions example_doc) (getName example_A)
   \<and> addDefinition example_doc example_A = ([], Inr example_doc)
   \<and> getProperty example_A = ([], Inr (Some example_A_schema))
   \<and> refs_of example_A_schema = []"
proof -
  have g: "getProperty example_A = ([], Inr (Some example_A_schema))"
    by (simp add: example_A_def example_Inner_def example_A_schema_def example_Inner_schema_def
        Split_comma_0_def Int64Property_def)
  have n: "getName example_A = ''A''"
    by (simp add: example_A_def ReplaceAll_slash_dot_def)
  have k: "has_key (Definitions example_doc) (getName example_A)"
    by (simp add: n example_doc_def has_key_def)
  have step1: "walkFn ''GET'' ''/a'' (NewJSONHandler example_A)
       \<lparr>Swagger = ''2.0'', Definitions = [], Paths = []\<rparr>
     = ([], Inr \<lparr>Swagger = ''2.0'', Definitions = [(''A'', example_A_schema)],
                 Paths = [(''/a'', empty_PathItem\<lparr>Get := Some example_operation\<rparr>)]\<rparr>)"
    by (simp add: walkFn_def bind_logged_def add_body_param_def add_response_def has_key_def
        add_path_params_def attach_def NewJSONHandler_def TypeOf_zero_def addDefinition_def g n
        example_A_def [THEN arg_cong, of Kind] example_operation_def NewOperation_def
        RespondsWith_def NewResponse_def RefProperty_def StatusOK_def empty_PathItem_def)
  have step2: "walkFn ''POST'' ''/a'' (NewJSONHandler example_A)
       \<lparr>Swagger = ''2.0'', Definitions = [(''A'', example_A_schema)],
        Paths = [(''/a'', empty_PathItem\<lparr>Get := Some example_operation\<rparr>)]\<rparr>
     = ([], Inr example_doc)"
    by (simp add: walkFn_def bind_logged_def add_body_param_def add_response_def has_key_def
        add_path_params_def attach_def NewJSONHandler_def TypeOf_zero_def addDefinition_def n
        example_A_def [THEN arg_cong, of Kind] example_operation_def NewOperation_def
        RespondsWith_def NewResponse_def RefProperty_def StatusOK_def empty_PathItem_def
        example_doc_def)
  have run: "initializeDoc [(''GET'', ''/a'', NewJSONHandler example_A),
                  (''POST'', ''/a'', NewJSONHandler example_A)] = ([], Inr example_doc)"
    by (simp add: initializeDoc_def step1 step2 bind_logged_def)
  from definitions_table [of "[(''GET'', ''/a'', NewJSONHandler example_A),
                  (''POST'', ''/a'', NewJSONHandler example_A)]" "[]" example_doc example_doc
      example_A "[]" example_A_schema] run k g
  show ?thesis by blast
qed

end
